theory Spec2Isabelle
  imports Complex_Main "HOL-Library.AList" "HOL-Library.Multiset"
begin

section \<open>JSON values and the JavaScript primitives the engines rely on\<close>

text \<open>
  The comparator, the schema inferrer and the scorer work on values produced by
  \<^verbatim>\<open>JSON.parse\<close>.  A value is one of the six JSON kinds.  An object is the list of its
  own entries in the order \<^verbatim>\<open>Object.keys\<close> enumerates them; in a well-formed value the
  keys of one object are pairwise distinct (\<open>wellFormed\<close> below).  A number is a finite
  double, modelled by the real number it denotes; \<^verbatim>\<open>NaN\<close> and the infinities (which
  \<^verbatim>\<open>JSON.parse\<close> returns for a literal beyond the range of the doubles, such as
  \<^verbatim>\<open>1e999\<close>) are outside the model.
\<close>

datatype json =
    JNull
  | JBool bool
  | JNum real
  | JStr string
  | JArr "json list"
  | JObj "(string \<times> json) list"

fun wellFormed :: "json \<Rightarrow> bool" where
  "wellFormed (JArr xs) = (\<forall>x \<in> set xs. wellFormed x)"
| "wellFormed (JObj kvs) = (distinct (map fst kvs) \<and> (\<forall>kv \<in> set kvs. wellFormed (snd kv)))"
| "wellFormed _ = True"

text \<open>The result of \<^verbatim>\<open>typeof\<close>: \<^verbatim>\<open>null\<close>, arrays and objects are all \<^verbatim>\<open>'object'\<close>.\<close>

datatype jstype = TObject | TBoolean | TNumber | TString

fun typeof :: "json \<Rightarrow> jstype" where
  "typeof JNull = TObject"
| "typeof (JBool _) = TBoolean"
| "typeof (JNum _) = TNumber"
| "typeof (JStr _) = TString"
| "typeof (JArr _) = TObject"
| "typeof (JObj _) = TObject"

text \<open>
  Three library functions of the language are used by the code and are not part of the
  repository: the conversion of a string to a number (\<^verbatim>\<open>Number(s)\<close>, where \<open>None\<close> stands
  for \<^verbatim>\<open>NaN\<close>), the conversion of a number to a string (\<^verbatim>\<open>String(n)\<close>) and
  \<^verbatim>\<open>JSON.stringify\<close>.  They are parameters of the model; every theorem below holds for
  all of them.  A string that converts to an infinity is outside the model, as the
  infinities are.
\<close>

record builtins =
  toNumber :: "string \<Rightarrow> real option"
  numberToString :: "real \<Rightarrow> string"
  stringify :: "json \<Rightarrow> string"

fun joinWith :: "string \<Rightarrow> string list \<Rightarrow> string" where
  "joinWith sep [] = []"
| "joinWith sep [s] = s"
| "joinWith sep (s # t # ts) = s @ sep @ joinWith sep (t # ts)"

text \<open>
  \<^verbatim>\<open>String(v)\<close>; \<open>None\<close> stands for the \<^verbatim>\<open>TypeError\<close> the conversion throws.  An array
  is converted by joining the conversions of its elements with commas, a \<^verbatim>\<open>null\<close> element
  giving the empty string.  An object is converted by the method \<^verbatim>\<open>toString\<close> it has: a
  plain object inherits the one that returns \<^verbatim>\<open>[object Object]\<close>, but an own property
  named \<^verbatim>\<open>toString\<close> hides it, and a parsed value is never callable, so the conversion then
  falls back to \<^verbatim>\<open>valueOf\<close>, which returns the object itself, and throws.
\<close>

fun jsString :: "builtins \<Rightarrow> json \<Rightarrow> string option" where
  "jsString B JNull = Some ''null''"
| "jsString B (JBool b) = Some (if b then ''true'' else ''false'')"
| "jsString B (JNum x) = Some (numberToString B x)"
| "jsString B (JStr s) = Some s"
| "jsString B (JArr xs) =
     map_option (joinWith '','')
       (those (map (\<lambda>x. if x = JNull then Some [] else jsString B x) xs))"
| "jsString B (JObj kvs) =
     (if ''toString'' \<in> set (map fst kvs) then None else Some ''[object Object]'')"

text \<open>The decimal numeral of an array index, as template strings print it.\<close>

definition digitChar :: "nat \<Rightarrow> char" where
  "digitChar n = ''0123456789'' ! n"

function natToString :: "nat \<Rightarrow> string" where
  "natToString n = (if n < 10 then [digitChar n] else natToString (n div 10) @ [digitChar (n mod 10)])"
  by pat_completeness auto
termination
  by (relation "measure id") auto

declare natToString.simps [simp del]

text \<open>
  \<^verbatim>\<open>key in v\<close> and \<^verbatim>\<open>v[key]\<close> for a value \<open>v\<close> with \<^verbatim>\<open>typeof v === 'object'\<close>, restricted to
  own properties: the entries of an object; the indices and \<^verbatim>\<open>length\<close> of an array.
  Properties inherited from the prototypes (\<^verbatim>\<open>constructor\<close>, \<^verbatim>\<open>valueOf\<close>, ...) are
  outside the model: a key that is looked up in a value is assumed to be an own property of
  the value or not to be named like a property of the prototypes.
\<close>

fun getProp :: "json \<Rightarrow> string \<Rightarrow> json option" where
  "getProp (JObj kvs) key = map_of kvs key"
| "getProp (JArr xs) key =
     (if key = ''length'' then Some (JNum (real (length xs)))
      else (case find (\<lambda>i. natToString i = key) [0..<length xs] of
              None \<Rightarrow> None
            | Some i \<Rightarrow> Some (xs ! i)))"
| "getProp _ key = None"


section \<open>Double-precision arithmetic\<close>

text \<open>
  The numbers of the program are IEEE 754 double-precision values, and each arithmetic
  operation returns the double nearest to the exact result, a tie going to the even
  significand.  A finite double is modelled by the real number it denotes.  The doubles
  around a positive real \<open>a\<close> are the multiples of a power of two: with \<open>2\<^sup>e \<le> a < 2\<^sup>e\<^sup>+\<^sup>1\<close>
  and \<open>e\<close> at least \<open>-1022\<close> (the subnormal range below shares the spacing of the smallest
  normal binade) they are \<open>2\<^sup>e\<^sup>-\<^sup>5\<^sup>2\<close> apart.  Overflow to infinity and \<^verbatim>\<open>NaN\<close> are outside the
  model: the operands of the scorer are counts and penalties between 0 and 100, for which
  no operation overflows, every divisor in the program is a positive count or the
  constant 100, and the one subtraction of the comparator overflows only when its operands
  have opposite signs and one of them exceeds \<open>2\<^sup>1\<^sup>0\<^sup>2\<^sup>3\<close> in size.
\<close>

function halvings :: "real \<Rightarrow> nat" where
  "halvings a = (if a < 2 then 0 else Suc (halvings (a / 2)))"
  by pat_completeness auto
termination
  by (relation "measure (\<lambda>a. nat \<lceil>a\<rceil>)") (auto, linarith)

function doublings :: "real \<Rightarrow> nat" where
  "doublings a = (if 1 \<le> a \<or> a \<le> 0 then 0 else Suc (doublings (2 * a)))"
  by pat_completeness auto
termination
proof (relation "measure (\<lambda>a. nat \<lceil>1 / a\<rceil>)")
  show "wf (measure (\<lambda>a. nat \<lceil>1 / a\<rceil>))"
    by simp
next
  fix a :: real
  assume "\<not> (1 \<le> a \<or> a \<le> 0)"
  then have pos: "0 < a" and small: "a < 1"
    by simp_all
  define t where "t = 1 / a"
  have half: "1 / (2 * a) = t / 2"
    by (simp add: t_def)
  have large: "1 < t"
    using pos small by (simp add: t_def)
  have "t \<le> of_int \<lceil>t\<rceil>"
    by (rule le_of_int_ceiling)
  moreover have "2 \<le> \<lceil>t\<rceil>"
    using large by linarith
  then have "(2::real) \<le> of_int \<lceil>t\<rceil>"
    by linarith
  ultimately have "t / 2 \<le> of_int \<lceil>t\<rceil> - 1"
    by linarith
  then have "\<lceil>t / 2\<rceil> < \<lceil>t\<rceil>"
    by (simp add: ceiling_less_iff)
  moreover have "0 < \<lceil>t\<rceil>"
    using large by linarith
  ultimately have "nat \<lceil>1 / (2 * a)\<rceil> < nat \<lceil>1 / a\<rceil>"
    unfolding half unfolding t_def by linarith
  then show "(2 * a, a) \<in> measure (\<lambda>a. nat \<lceil>1 / a\<rceil>)"
    by simp
qed

declare halvings.simps [simp del]
declare doublings.simps [simp del]

text \<open>The exponent \<open>e\<close> of the binade of a positive real, not below \<open>-1022\<close>.\<close>

definition binade :: "real \<Rightarrow> int" where
  "binade a = (if 1 \<le> a then int (halvings a) else max (- 1022) (- int (doublings a)))"

definition roundTiesEven :: "real \<Rightarrow> int" where
  "roundTiesEven y =
     (let f = \<lfloor>y\<rfloor> in
      if y - of_int f < 1 / 2 then f
      else if 1 / 2 < y - of_int f then f + 1
      else if even f then f else f + 1)"

definition roundToDouble :: "real \<Rightarrow> real" where
  "roundToDouble x =
     (if x = 0 then 0
      else (let quantum = 2 powi (binade \<bar>x\<bar> - 52)
            in quantum * of_int (roundTiesEven (x / quantum))))"

definition fadd :: "real \<Rightarrow> real \<Rightarrow> real" where
  "fadd x y = roundToDouble (x + y)"

definition fsub :: "real \<Rightarrow> real \<Rightarrow> real" where
  "fsub x y = roundToDouble (x - y)"

definition fmul :: "real \<Rightarrow> real \<Rightarrow> real" where
  "fmul x y = roundToDouble (x * y)"

definition fdiv :: "real \<Rightarrow> real \<Rightarrow> real" where
  "fdiv x y = roundToDouble (x / y)"

section \<open>Comparison rules and comparison results (types/config.ts, types/results.ts)\<close>

datatype arrayStrategy = Ordered | Unordered

record ComparisonRules =
  ignoreFields :: "string list"
  arrayStrategy :: arrayStrategy
  numericTolerance :: real
  typeCoercion :: bool
  extraFieldsWarning :: bool

text \<open>The defaults of \<^verbatim>\<open>ComparisonRulesSchema\<close>.\<close>

definition defaultRules :: ComparisonRules where
  "defaultRules = \<lparr> ignoreFields = [], arrayStrategy = Unordered, numericTolerance = 0,
     typeCoercion = True, extraFieldsWarning = True \<rparr>"

datatype mismatchType = ValueMismatch | TypeMismatch | NumericMismatch

text \<open>
  The four kinds of entry all have a field \<^verbatim>\<open>path\<close>; the record fields carry a prefix
  to keep them apart.
\<close>

record FieldMismatch =
  mm_path :: string
  mm_groundTruth :: json
  mm_actual :: json
  mm_type :: mismatchType

record MissingField =
  ms_path :: string
  ms_expectedValue :: json

record ExtraField =
  ex_path :: string
  ex_value :: json

record ArrayOrderWarning =
  w_path :: string
  w_message :: string

record ComparisonResult =
  passed :: bool
  mismatches :: "FieldMismatch list"
  missing :: "MissingField list"
  extra :: "ExtraField list"
  warnings :: "ArrayOrderWarning list"

text \<open>\<^verbatim>\<open>result.mismatches.push(...)\<close> and its three siblings.\<close>

definition pushMismatch :: "string \<Rightarrow> json \<Rightarrow> json \<Rightarrow> mismatchType \<Rightarrow> ComparisonResult \<Rightarrow> ComparisonResult" where
  "pushMismatch p g a t result =
     result\<lparr> mismatches := mismatches result @
       [\<lparr> mm_path = p, mm_groundTruth = g, mm_actual = a, mm_type = t \<rparr>] \<rparr>"

definition pushMissing :: "string \<Rightarrow> json \<Rightarrow> ComparisonResult \<Rightarrow> ComparisonResult" where
  "pushMissing p v result =
     result\<lparr> missing := missing result @ [\<lparr> ms_path = p, ms_expectedValue = v \<rparr>] \<rparr>"

definition pushExtra :: "string \<Rightarrow> json \<Rightarrow> ComparisonResult \<Rightarrow> ComparisonResult" where
  "pushExtra p v result =
     result\<lparr> extra := extra result @ [\<lparr> ex_path = p, ex_value = v \<rparr>] \<rparr>"

definition pushWarning :: "string \<Rightarrow> string \<Rightarrow> ComparisonResult \<Rightarrow> ComparisonResult" where
  "pushWarning p m result =
     result\<lparr> warnings := warnings result @ [\<lparr> w_path = p, w_message = m \<rparr>] \<rparr>"

section \<open>The comparator (core/comparator.ts)\<close>

text \<open>The template \<^verbatim>\<open>path ? `${path}.${key}` : key\<close>: the empty string is falsy.\<close>

definition fieldPathOf :: "string \<Rightarrow> string \<Rightarrow> string" where
  "fieldPathOf path key = (if path \<noteq> [] then path @ ''.'' @ key else key)"

definition itemPathOf :: "string \<Rightarrow> nat \<Rightarrow> string" where
  "itemPathOf path i = path @ ''['' @ natToString i @ '']''"

text \<open>
  Lines 163 to 185 of \<^verbatim>\<open>comparePrimitives\<close>: the numeric tolerance check for two numbers, the
  strict comparison \<^verbatim>\<open>gt !== actual\<close> otherwise.  The method is only called with a ground
  truth that is a boolean, a number or a string, for which strict inequality is inequality
  of values.
\<close>

definition compareDirect ::
  "json \<Rightarrow> json \<Rightarrow> string \<Rightarrow> ComparisonResult \<Rightarrow> ComparisonRules \<Rightarrow> ComparisonResult" where
  "compareDirect gt actual path result rules =
    (if typeof gt = TNumber \<and> typeof actual = TNumber then
       (case (gt, actual) of
          (JNum g, JNum a) \<Rightarrow>
            (if \<bar>fsub g a\<bar> \<le> numericTolerance rules then result
             else pushMismatch path gt actual NumericMismatch result)
        | _ \<Rightarrow> result)
     else if gt \<noteq> actual then pushMismatch path gt actual ValueMismatch result
     else result)"

text \<open>
  \<^verbatim>\<open>comparePrimitives\<close>.  \<open>numbers\<close> is the pair \<^verbatim>\<open>gtNum\<close>, \<^verbatim>\<open>actualNum\<close> of lines 143 to
  146, when one value is a number and the other a string and neither conversion is
  \<^verbatim>\<open>NaN\<close>: \<^verbatim>\<open>Number\<close> returns a number as it is and converts a string.  The result of the
  method is \<open>None\<close> when a conversion to a string throws; the actual value can be an array
  or an object here.
\<close>

definition comparePrimitives ::
  "builtins \<Rightarrow> json \<Rightarrow> json \<Rightarrow> string \<Rightarrow> ComparisonResult \<Rightarrow> ComparisonRules \<Rightarrow> ComparisonResult option" where
  "comparePrimitives B gt actual path result rules =
    (if typeCoercion rules \<and> typeof gt \<noteq> typeof actual then
       (let numbers =
              (case (gt, actual) of
                 (JNum g, JStr s) \<Rightarrow> map_option (\<lambda>a. (g, a)) (toNumber B s)
               | (JStr s, JNum a) \<Rightarrow> map_option (\<lambda>g. (g, a)) (toNumber B s)
               | _ \<Rightarrow> None)
        in case numbers of
             Some (gtNum, actualNum) \<Rightarrow>
               Some (if \<bar>fsub gtNum actualNum\<bar> \<le> numericTolerance rules then result
                     else pushMismatch path gt actual NumericMismatch result)
           | None \<Rightarrow>
              (case jsString B gt of
                 None \<Rightarrow> None
               | Some gtString \<Rightarrow>
                  (case jsString B actual of
                     None \<Rightarrow> None
                   | Some actualString \<Rightarrow>
                       if gtString = actualString then Some result
                       else Some (compareDirect gt actual path result rules))))
     else Some (compareDirect gt actual path result rules))"

text \<open>
  The unordered branch of \<^verbatim>\<open>compareArrays\<close> (lines 222 to 255): two sets of converted
  items, one loop over the ground truth (\<open>missingItems\<close>), one over the actual array
  (\<open>extraItems\<close>), and the order warning.  Every item of both arrays is converted to a
  string, whatever it is; the branch throws when one of the conversions does.
\<close>

fun missingItems ::
  "builtins \<Rightarrow> json list \<Rightarrow> string set \<Rightarrow> string \<Rightarrow> ComparisonResult \<Rightarrow> ComparisonResult option" where
  "missingItems B [] actualSet path result = Some result"
| "missingItems B (item # rest) actualSet path result =
     (case jsString B item of
        None \<Rightarrow> None
      | Some s \<Rightarrow>
          missingItems B rest actualSet path
            (if s \<notin> actualSet then pushMissing (path @ ''[]'') item result else result))"

fun extraItems ::
  "builtins \<Rightarrow> json list \<Rightarrow> string set \<Rightarrow> string \<Rightarrow> ComparisonResult \<Rightarrow> ComparisonResult option" where
  "extraItems B [] gtSet path result = Some result"
| "extraItems B (item # rest) gtSet path result =
     (case jsString B item of
        None \<Rightarrow> None
      | Some s \<Rightarrow>
          extraItems B rest gtSet path
            (if s \<notin> gtSet then pushExtra (path @ ''[]'') item result else result))"

definition compareUnordered ::
  "builtins \<Rightarrow> json list \<Rightarrow> json list \<Rightarrow> string \<Rightarrow> ComparisonResult \<Rightarrow> ComparisonResult option" where
  "compareUnordered B gt actual path result =
     (case those (map (jsString B) gt) of
        None \<Rightarrow> None
      | Some gtStrings \<Rightarrow>
     (case those (map (jsString B) actual) of
        None \<Rightarrow> None
      | Some actualStrings \<Rightarrow>
     (case missingItems B gt (set actualStrings) path result of
        None \<Rightarrow> None
      | Some result \<Rightarrow>
     (case extraItems B actual (set gtStrings) path result of
        None \<Rightarrow> None
      | Some result \<Rightarrow>
          Some (if length gt = length actual \<and> stringify B (JArr gt) \<noteq> stringify B (JArr actual)
                then pushWarning path ''Array order differs (unordered comparison enabled)'' result
                else result)))))"

text \<open>
  \<^verbatim>\<open>compareObject\<close> and the methods it calls.  The mutated \<^verbatim>\<open>result\<close> is passed in and
  returned, \<open>None\<close> when the call throws.  The equations of \<open>compareObject\<close> are tried in
  order, as the chain of \<^verbatim>\<open>if\<close>s is: the null checks, the array branch, the object branch,
  the primitives.  \<open>compareFields\<close> is the loop over \<^verbatim>\<open>Object.keys(gt)\<close>.  \<open>compareItems\<close> is
  the loop \<^verbatim>\<open>for (let i = 0; i < maxLen; i++)\<close> that \<^verbatim>\<open>compareArrays\<close> (ordered) and
  \<^verbatim>\<open>compareObjectArrays\<close> share: at index \<open>i\<close> the ground truth is exhausted
  (\<^verbatim>\<open>i >= gt.length\<close>, an extra entry), or the actual array is (a missing entry), or both
  have an element, which are compared.
\<close>

function (sequential) compareObject ::
    "builtins \<Rightarrow> json \<Rightarrow> json \<Rightarrow> string \<Rightarrow> string set \<Rightarrow> ComparisonResult \<Rightarrow> ComparisonRules \<Rightarrow> ComparisonResult option"
  and compareFields ::
    "builtins \<Rightarrow> (string \<times> json) list \<Rightarrow> json \<Rightarrow> string \<Rightarrow> string set \<Rightarrow> ComparisonResult \<Rightarrow> ComparisonRules \<Rightarrow> ComparisonResult option"
  and compareItems ::
    "builtins \<Rightarrow> nat \<Rightarrow> json list \<Rightarrow> json list \<Rightarrow> string \<Rightarrow> string set \<Rightarrow> ComparisonResult \<Rightarrow> ComparisonRules \<Rightarrow> ComparisonResult option"
  and compareArrays ::
    "builtins \<Rightarrow> json list \<Rightarrow> json list \<Rightarrow> string \<Rightarrow> string set \<Rightarrow> ComparisonResult \<Rightarrow> ComparisonRules \<Rightarrow> ComparisonResult option"
  and compareObjectArrays ::
    "builtins \<Rightarrow> json list \<Rightarrow> json list \<Rightarrow> string \<Rightarrow> string set \<Rightarrow> ComparisonResult \<Rightarrow> ComparisonRules \<Rightarrow> ComparisonResult option"
where
  "compareObject B JNull JNull path ignoreSet result rules = Some result"
| "compareObject B JNull actual path ignoreSet result rules =
     Some (pushMismatch (if path \<noteq> [] then path else ''root'') JNull actual ValueMismatch result)"
| "compareObject B gt JNull path ignoreSet result rules =
     Some (pushMismatch (if path \<noteq> [] then path else ''root'') gt JNull ValueMismatch result)"
| "compareObject B (JArr gt) (JArr actual) path ignoreSet result rules =
     (if length gt = 0 \<and> length actual = 0 then Some result
      else if length gt > 0 \<and> typeof (hd gt) = TObject then
        compareObjectArrays B gt actual path ignoreSet result rules
      else compareArrays B gt actual path ignoreSet result rules)"
| "compareObject B (JArr gt) actual path ignoreSet result rules =
     Some (pushMismatch path (JArr gt) actual TypeMismatch result)"
| "compareObject B (JObj gt) actual path ignoreSet result rules =
     (if typeof actual \<noteq> TObject then Some (pushMismatch path (JObj gt) actual TypeMismatch result)
      else compareFields B gt actual path ignoreSet result rules)"
| "compareObject B gt actual path ignoreSet result rules =
     comparePrimitives B gt actual path result rules"
| "compareFields B [] actual path ignoreSet result rules = Some result"
| "compareFields B ((key, gtValue) # rest) actual path ignoreSet result rules =
     (case (let fieldPath = fieldPathOf path key in
            if fieldPath \<in> ignoreSet then Some result
            else (case getProp actual key of
                    None \<Rightarrow> Some (pushMissing fieldPath gtValue result)
                  | Some actualValue \<Rightarrow>
                      compareObject B gtValue actualValue fieldPath ignoreSet result rules)) of
        None \<Rightarrow> None
      | Some result \<Rightarrow> compareFields B rest actual path ignoreSet result rules)"
| "compareItems B i [] [] path ignoreSet result rules = Some result"
| "compareItems B i [] (a # actual) path ignoreSet result rules =
     compareItems B (i + 1) [] actual path ignoreSet
       (pushExtra (itemPathOf path i) a result) rules"
| "compareItems B i (g # gt) [] path ignoreSet result rules =
     compareItems B (i + 1) gt [] path ignoreSet
       (pushMissing (itemPathOf path i) g result) rules"
| "compareItems B i (g # gt) (a # actual) path ignoreSet result rules =
     (case compareObject B g a (itemPathOf path i) ignoreSet result rules of
        None \<Rightarrow> None
      | Some result \<Rightarrow> compareItems B (i + 1) gt actual path ignoreSet result rules)"
| "compareArrays B gt actual path ignoreSet result rules =
     (if arrayStrategy rules = Ordered
      then compareItems B 0 gt actual path ignoreSet result rules
      else compareUnordered B gt actual path result)"
| "compareObjectArrays B gt actual path ignoreSet result rules =
     compareItems B 0 gt actual path ignoreSet result rules"
  by pat_completeness auto
termination
  by (relation "inv_image (less_than <*lex*> less_than) (\<lambda>x. case x of
          Inl (Inl (B, gt, r)) \<Rightarrow> (2 * size gt, 0)
        | Inl (Inr (B, gt, r)) \<Rightarrow> (2 * size_list (size_prod (\<lambda>_. 0) size) gt, 0)
        | Inr (Inl (B, i, gt, actual, r)) \<Rightarrow> (2 * size_list size gt, length actual)
        | Inr (Inr (Inl (B, gt, r))) \<Rightarrow> (2 * size_list size gt + 1, 0)
        | Inr (Inr (Inr (B, gt, r))) \<Rightarrow> (2 * size_list size gt + 1, 0))") auto

text \<open>
  \<^verbatim>\<open>detectExtraFields\<close>: nothing is done unless both values are plain objects;
  \<open>detectExtraKeys\<close> is the loop over \<^verbatim>\<open>Object.keys(actual)\<close>.
\<close>

function (sequential) detectExtraFields ::
    "json \<Rightarrow> json \<Rightarrow> string \<Rightarrow> string set \<Rightarrow> ComparisonResult \<Rightarrow> ComparisonResult"
  and detectExtraKeys ::
    "(string \<times> json) list \<Rightarrow> (string \<times> json) list \<Rightarrow> string \<Rightarrow> string set \<Rightarrow> ComparisonResult \<Rightarrow> ComparisonResult"
where
  "detectExtraFields (JObj gt) (JObj actual) path ignoreSet result =
     detectExtraKeys gt actual path ignoreSet result"
| "detectExtraFields gt actual path ignoreSet result = result"
| "detectExtraKeys gt [] path ignoreSet result = result"
| "detectExtraKeys gt ((key, actualValue) # rest) path ignoreSet result =
     detectExtraKeys gt rest path ignoreSet
       (let fieldPath = fieldPathOf path key in
        if fieldPath \<in> ignoreSet \<or> key \<in> ignoreSet then result
        else (case map_of gt key of
                None \<Rightarrow> pushExtra fieldPath actualValue result
              | Some gtValue \<Rightarrow>
                  if typeof actualValue = TObject \<and> typeof gtValue = TObject
                  then detectExtraFields gtValue actualValue fieldPath ignoreSet result
                  else result))"
  by pat_completeness auto
termination
  by (relation "measure (\<lambda>x. case x of
          Inl (gt, actual, r) \<Rightarrow> 2 * size actual
        | Inr (gt, actual, r) \<Rightarrow> 2 * size_list (size_prod (\<lambda>_. 0) size) actual + 1)") auto

text \<open>
  \<^verbatim>\<open>compare\<close>; \<open>None\<close> when the comparison throws.  The schema inferred from the ground
  truth at line 26 is not used by the method, and the inference does not throw; it is
  left out here.
\<close>

definition emptyComparison :: ComparisonResult where
  "emptyComparison = \<lparr> passed = True, mismatches = [], missing = [], extra = [], warnings = [] \<rparr>"

definition compare :: "builtins \<Rightarrow> json \<Rightarrow> json \<Rightarrow> ComparisonRules \<Rightarrow> ComparisonResult option" where
  "compare B groundTruth actual rules =
     (let result = emptyComparison;
          ignoreSet = set (ignoreFields rules)
      in case compareObject B groundTruth actual [] ignoreSet result rules of
           None \<Rightarrow> None
         | Some result \<Rightarrow>
            (let result = detectExtraFields groundTruth actual [] ignoreSet result
             in Some (result\<lparr> passed :=
                  mismatches result = [] \<and> missing result = [] \<and>
                  (extra result = [] \<or> \<not> extraFieldsWarning rules) \<rparr>)))"

section \<open>An instance of the library functions for the examples\<close>

text \<open>
  The closed examples below need the three library functions at concrete arguments.  This
  instance agrees with the language on the values the examples use: strings of decimal
  digits, natural numbers, and strings that need no escaping.
\<close>

fun digitsValue :: "string \<Rightarrow> nat option" where
  "digitsValue [] = Some 0"
| "digitsValue s =
     (if list_all (\<lambda>c. (48::nat) \<le> of_char c \<and> of_char c \<le> (57::nat)) s
      then Some (foldl (\<lambda>n c. 10 * n + (of_char c - 48)) 0 s) else None)"

definition exampleToNumber :: "string \<Rightarrow> real option" where
  "exampleToNumber s = map_option real (digitsValue s)"

definition exampleNumberToString :: "real \<Rightarrow> string" where
  "exampleNumberToString x =
     (if 0 \<le> x then natToString (nat \<lfloor>x\<rfloor>) else ''-'' @ natToString (nat \<lfloor>- x\<rfloor>))"

fun exampleStringify :: "json \<Rightarrow> string" where
  "exampleStringify JNull = ''null''"
| "exampleStringify (JBool b) = (if b then ''true'' else ''false'')"
| "exampleStringify (JNum x) = exampleNumberToString x"
| "exampleStringify (JStr s) = [CHR 0x22] @ s @ [CHR 0x22]"
| "exampleStringify (JArr xs) = ''['' @ joinWith '','' (map exampleStringify xs) @ '']''"
| "exampleStringify (JObj kvs) =
     ''{'' @ joinWith '','' (map (\<lambda>(k, v). [CHR 0x22] @ k @ [CHR 0x22] @ '':'' @ exampleStringify v) kvs) @ ''}''"

definition exampleBuiltins :: builtins where
  "exampleBuiltins = \<lparr> toNumber = exampleToNumber, numberToString = exampleNumberToString,
     stringify = exampleStringify \<rparr>"

section \<open>The scorer (core/scorer.ts)\<close>

record ScoringConfig =
  weights :: "(string \<times> real) list"
  missingFieldPenalty :: real
  mismatchPenalty :: real
  extraFieldPenalty :: real

text \<open>The defaults of \<^verbatim>\<open>ScoringConfigSchema\<close>.\<close>

definition defaultScoring :: ScoringConfig where
  "defaultScoring = \<lparr> weights = [], missingFieldPenalty = 10, mismatchPenalty = 5,
     extraFieldPenalty = 2 \<rparr>"

record FieldScore =
  fs_field :: string
  fs_score :: real
  fs_penalty :: real
  fs_reason :: string

text \<open>
  The counts are JavaScript numbers; \<^verbatim>\<open>matchedFields\<close> is a difference and can be
  negative, so it is an integer here.
\<close>

record Breakdown =
  totalFields :: nat
  matchedFields :: int
  missingFields :: nat
  mismatchedFields :: nat
  extraFields :: nat

record ScoringResult =
  overallScore :: real
  completenessScore :: real
  accuracyScore :: real
  extraFieldScore :: real
  fieldScores :: "FieldScore list"
  breakdown :: Breakdown

text \<open>
  A \<^verbatim>\<open>Set<string>\<close> keeps its members in insertion order; \<open>setAdd\<close> is \<^verbatim>\<open>schema.add\<close>.
\<close>

definition setAdd :: "string \<Rightarrow> string list \<Rightarrow> string list" where
  "setAdd p schema = (if p \<in> set schema then schema else schema @ [p])"

definition extractSchema :: "ComparisonResult \<Rightarrow> string list" where
  "extractSchema comparison =
     (let schema = [];
          schema = fold (\<lambda>m schema. setAdd (mm_path m) schema) (mismatches comparison) schema;
          schema = fold (\<lambda>m schema. setAdd (ms_path m) schema) (missing comparison) schema
      in schema)"

definition emptyResult :: ScoringResult where
  "emptyResult = \<lparr> overallScore = 100, completenessScore = 100, accuracyScore = 100,
     extraFieldScore = 0, fieldScores = [],
     breakdown = \<lparr> totalFields = 0, matchedFields = 0, missingFields = 0,
       mismatchedFields = 0, extraFields = 0 \<rparr> \<rparr>"

text \<open>
  \<^verbatim>\<open>Math.round\<close>: the nearest integer, a tie going up.  The function is exact: its result
  is a double whenever its argument is.
\<close>

definition mathRound :: "real \<Rightarrow> real" where
  "mathRound x = of_int \<lfloor>x + 1 / 2\<rfloor>"

text \<open>The body of the loop over the schema (lines 24 to 51).\<close>

definition scoreField :: "ComparisonResult \<Rightarrow> ScoringConfig \<Rightarrow> string \<Rightarrow> FieldScore list \<Rightarrow> FieldScore list" where
  "scoreField comparison config field scores =
     (let isMissing = list_ex (\<lambda>m. ms_path m = field) (missing comparison);
          isMismatched = list_ex (\<lambda>m. mm_path m = field) (mismatches comparison);
          isExtra = list_ex (\<lambda>e. ex_path e = field) (extra comparison)
      in if isMissing then
           scores @ [\<lparr> fs_field = field, fs_score = 0, fs_penalty = missingFieldPenalty config,
                       fs_reason = ''Field missing in output'' \<rparr>]
         else if isMismatched then
           scores @ [\<lparr> fs_field = field, fs_score = 50, fs_penalty = mismatchPenalty config,
                       fs_reason = ''Field value mismatch'' \<rparr>]
         else if \<not> isExtra then
           scores @ [\<lparr> fs_field = field, fs_score = 100, fs_penalty = 0,
                       fs_reason = ''Perfect match'' \<rparr>]
         else scores)"

text \<open>
  \<^verbatim>\<open>score\<close>.  The four scores are computed in double arithmetic, every operation rounded
  (lines 64 to 81); the counts are integers, on which additions and subtractions are
  exact.
\<close>

definition score :: "ComparisonResult \<Rightarrow> ScoringConfig \<Rightarrow> ScoringResult" where
  "score comparison config =
     (let schema = extractSchema comparison;
          totalFields = length schema
      in if totalFields = 0 then emptyResult
         else
          (let missingN = length (missing comparison);
               mismatchN = length (mismatches comparison);
               extraN = length (extra comparison);
               matchedFields = int totalFields - int missingN - int mismatchN;
               scores = fold (scoreField comparison config) schema [];
               scores = fold (\<lambda>e scores. scores @
                          [\<lparr> fs_field = ex_path e, fs_score = 75,
                              fs_penalty = extraFieldPenalty config,
                              fs_reason = ''Extra field in output'' \<rparr>]) (extra comparison) scores;
               completeness = fmul (fdiv (real_of_int matchedFields) (real totalFields)) 100;
               accuracy = fmul (fdiv (real_of_int (int totalFields - int mismatchN)) (real totalFields)) 100;
               totalPenalty = 0;
               totalPenalty = fadd totalPenalty (fmul (real missingN) (missingFieldPenalty config));
               totalPenalty = fadd totalPenalty (fmul (real mismatchN) (mismatchPenalty config));
               totalPenalty = fadd totalPenalty (fmul (real extraN) (extraFieldPenalty config));
               overall = max 0 (fsub 100 (fmul (fdiv totalPenalty (real totalFields)) 10));
               extraRate = fmul (fdiv (real extraN) (real (max totalFields 1))) 100
           in \<lparr> overallScore = fdiv (mathRound (fmul overall 100)) 100,
                completenessScore = fdiv (mathRound (fmul completeness 100)) 100,
                accuracyScore = fdiv (mathRound (fmul accuracy 100)) 100,
                extraFieldScore = fdiv (mathRound (fmul extraRate 100)) 100,
                fieldScores = scores,
                breakdown = \<lparr> totalFields = totalFields, matchedFields = matchedFields,
                  missingFields = missingN, mismatchedFields = mismatchN,
                  extraFields = extraN \<rparr> \<rparr>))"

text \<open>
  Rounding to two decimals, ties up, as a property of the exact value \<open>x\<close> and the rounded
  value \<open>r\<close>: \<open>r\<close> is a multiple of one hundredth, and it lies within half a hundredth of
  \<open>x\<close>, the upper end included.
\<close>

definition roundedHalfUp2 :: "real \<Rightarrow> real \<Rightarrow> bool" where
  "roundedHalfUp2 x r \<longleftrightarrow>
     r * 100 = of_int \<lfloor>r * 100\<rfloor> \<and> x - 1 / 200 < r \<and> r \<le> x + 1 / 200"

section \<open>Notions used to state properties of the ignore list\<close>



section \<open>The schema inferrer (core/schema-inference.ts)\<close>

datatype fieldType = StringType | NumberType | BooleanType | ArrayType | ObjectType | NullType

record SchemaField =
  sf_path :: string
  sf_type :: fieldType
  isArray :: bool
  isRequired :: bool
  sampleValues :: "json list"

text \<open>
  \<^verbatim>\<open>fields\<close> is a \<^verbatim>\<open>Map\<close>: \<^verbatim>\<open>fields.set\<close> replaces the value of a key that is present and
  keeps its position, and appends a new key otherwise, as \<open>AList.update\<close> does.  The two
  fields of the inferred schema are \<^verbatim>\<open>fields\<close> and \<^verbatim>\<open>totalFields\<close> in the source,
  and the map passed along by \<^verbatim>\<open>traverseObject\<close> is \<open>fieldsMap\<close> below.
\<close>

record InferredSchema =
  schemaFields :: "(string \<times> SchemaField) list"
  schemaTotalFields :: nat

fun getType :: "json \<Rightarrow> fieldType" where
  "getType JNull = NullType"
| "getType (JArr _) = ArrayType"
| "getType (JStr _) = StringType"
| "getType (JNum _) = NumberType"
| "getType (JBool _) = BooleanType"
| "getType (JObj _) = ObjectType"

text \<open>
  \<^verbatim>\<open>value[0] || ''\<close>: the first element, replaced by the empty string when the array is
  empty (\<^verbatim>\<open>undefined\<close>) or the element is falsy (\<^verbatim>\<open>null\<close>, \<^verbatim>\<open>false\<close>, \<^verbatim>\<open>0\<close>, the empty
  string).
\<close>

fun falsy :: "json \<Rightarrow> bool" where
  "falsy JNull = True"
| "falsy (JBool b) = (\<not> b)"
| "falsy (JNum x) = (x = 0)"
| "falsy (JStr s) = (s = [])"
| "falsy _ = False"

fun firstOrEmptyString :: "json list \<Rightarrow> json" where
  "firstOrEmptyString [] = JStr []"
| "firstOrEmptyString (x # xs) = (if falsy x then JStr [] else x)"

definition arrayField :: "string \<Rightarrow> json \<Rightarrow> json list \<Rightarrow> SchemaField" where
  "arrayField p typed items =
     \<lparr> sf_path = p, sf_type = getType typed, isArray = True, isRequired = True,
       sampleValues = take 3 items \<rparr>"

text \<open>
  \<^verbatim>\<open>traverseObject\<close>; \<open>traverseEntries\<close> is its loop over \<^verbatim>\<open>Object.entries(obj)\<close>.
\<close>

function (sequential) traverseObject ::
    "json \<Rightarrow> string \<Rightarrow> (string \<times> SchemaField) list \<Rightarrow> (string \<times> SchemaField) list"
  and traverseEntries ::
    "(string \<times> json) list \<Rightarrow> string \<Rightarrow> (string \<times> SchemaField) list \<Rightarrow> (string \<times> SchemaField) list"
where
  "traverseObject JNull prefix fieldsMap = fieldsMap"
| "traverseObject (JArr []) prefix fieldsMap = fieldsMap"
| "traverseObject (JArr (firstItem # items)) prefix fieldsMap =
     (if typeof firstItem = TObject \<and> firstItem \<noteq> JNull
      then traverseObject firstItem (prefix @ ''[]'') fieldsMap
      else AList.update prefix (arrayField prefix firstItem (firstItem # items)) fieldsMap)"
| "traverseObject (JObj entries) prefix fieldsMap = traverseEntries entries prefix fieldsMap"
| "traverseObject obj prefix fieldsMap = fieldsMap"
| "traverseEntries [] prefix fieldsMap = fieldsMap"
| "traverseEntries ((key, value) # rest) prefix fieldsMap =
     traverseEntries rest prefix
       (let fieldPath = fieldPathOf prefix key in
        case value of
          JNull \<Rightarrow>
            AList.update fieldPath
              \<lparr> sf_path = fieldPath, sf_type = NullType, isArray = False, isRequired = True,
                sampleValues = [JNull] \<rparr> fieldsMap
        | JArr items \<Rightarrow>
            (case items of
               first # _ \<Rightarrow>
                 if typeof first = TObject \<and> first \<noteq> JNull
                 then traverseObject first (fieldPath @ ''[]'') fieldsMap
                 else AList.update fieldPath
                        (arrayField fieldPath (firstOrEmptyString items) items) fieldsMap
             | [] \<Rightarrow>
                 AList.update fieldPath
                   (arrayField fieldPath (firstOrEmptyString items) items) fieldsMap)
        | JObj _ \<Rightarrow> traverseObject value fieldPath fieldsMap
        | _ \<Rightarrow>
            AList.update fieldPath
              \<lparr> sf_path = fieldPath, sf_type = getType value, isArray = False,
                isRequired = True, sampleValues = [value] \<rparr> fieldsMap)"
  by pat_completeness auto
termination
  by (relation "measure (\<lambda>x. case x of
          Inl (obj, r) \<Rightarrow> 2 * size obj
        | Inr (entries, r) \<Rightarrow> 2 * size_list (size_prod (\<lambda>_. 0) size) entries + 1)") auto

definition infer :: "json \<Rightarrow> InferredSchema" where
  "infer data = (let fieldsMap = traverseObject data [] []
                 in \<lparr> schemaFields = fieldsMap, schemaTotalFields = length fieldsMap \<rparr>)"

section \<open>The orchestrator (core/orchestrator.ts)\<close>

text \<open>
  The three awaited calls of \<^verbatim>\<open>runCase\<close> reach outside the program.  Each either returns a
  JSON value or throws; what is thrown is an \<^verbatim>\<open>Error\<close> with a message, or some other
  value.  The data fetcher is a parameter: \<open>fetchData\<close> for a data source and
  \<open>executeService\<close> for an endpoint, a method and an input (the suite's \<^verbatim>\<open>auth\<close> is fixed
  and is part of the two functions).  Data sources and endpoints are identified by
  strings.
\<close>

datatype thrown = ErrorObject string | OtherValue

record DataFetcher =
  fetchData :: "string \<Rightarrow> thrown + json"
  executeService :: "string \<Rightarrow> string \<Rightarrow> json \<Rightarrow> thrown + json"

text \<open>
  A test case.  The two object spreads that merge the suite defaults with the overrides of
  the case (lines 631 to 639) are taken as done: \<open>comparisonRules\<close> and \<open>scoringConfig\<close> are
  the merged records.
\<close>

record TestCase =
  tc_id :: string
  tc_description :: "string option"
  tc_input :: string
  tc_groundTruth :: string
  tc_endpoint :: string
  tc_method :: "string option"
  comparisonRules :: ComparisonRules
  scoringConfig :: ScoringConfig

datatype caseStatus = Passed | Failed | Warning

record ErrorInfo =
  err_message :: string
  err_code :: string

text \<open>
  The result of a case, without its two clock readings (\<^verbatim>\<open>executedAt\<close>,
  \<^verbatim>\<open>executionTime\<close>).
\<close>

record TestCaseResult =
  caseId :: string
  description :: "string option"
  status :: caseStatus
  comparison :: ComparisonResult
  scoring :: ScoringResult
  error :: "ErrorInfo option"

text \<open>The result built by the \<^verbatim>\<open>catch\<close> block of \<^verbatim>\<open>runCase\<close> (lines 677 to 711).\<close>

definition failedCase :: "TestCase \<Rightarrow> thrown \<Rightarrow> TestCaseResult" where
  "failedCase testCase e =
     \<lparr> caseId = tc_id testCase,
       description = tc_description testCase,
       status = Failed,
       comparison = \<lparr> passed = False, mismatches = [], missing = [], extra = [], warnings = [] \<rparr>,
       scoring = \<lparr> overallScore = 0, completenessScore = 0, accuracyScore = 0,
         extraFieldScore = 0, fieldScores = [],
         breakdown = \<lparr> totalFields = 0, matchedFields = 0, missingFields = 0,
           mismatchedFields = 0, extraFields = 0 \<rparr> \<rparr>,
       error = Some \<lparr> err_message = (case e of ErrorObject m \<Rightarrow> m | OtherValue \<Rightarrow> ''Unknown error''),
                      err_code = ''EXECUTION_ERROR'' \<rparr> \<rparr>"

text \<open>
  \<^verbatim>\<open>runCase\<close>: the three calls in sequence, the first that throws ending the case in the
  \<^verbatim>\<open>catch\<close> block; then the comparison, which is inside the \<^verbatim>\<open>try\<close> block as well and
  ends the case in the same way when it throws its \<^verbatim>\<open>TypeError\<close>; then the scoring and
  the status.
\<close>

definition runCase :: "builtins \<Rightarrow> DataFetcher \<Rightarrow> TestCase \<Rightarrow> TestCaseResult" where
  "runCase B dataFetcher testCase =
     (case fetchData dataFetcher (tc_input testCase) of
        Inl e \<Rightarrow> failedCase testCase e
      | Inr input \<Rightarrow>
     (case fetchData dataFetcher (tc_groundTruth testCase) of
        Inl e \<Rightarrow> failedCase testCase e
      | Inr groundTruth \<Rightarrow>
     (case executeService dataFetcher (tc_endpoint testCase)
             (case tc_method testCase of None \<Rightarrow> ''POST'' | Some m \<Rightarrow> m) input of
        Inl e \<Rightarrow> failedCase testCase e
      | Inr output \<Rightarrow>
     (case compare B groundTruth output (comparisonRules testCase) of
        None \<Rightarrow> failedCase testCase (ErrorObject ''Cannot convert object to primitive value'')
      | Some returned \<Rightarrow>
         (let comparison = returned;
              scoring = score comparison (scoringConfig testCase);
              status = (if \<not> passed comparison then Failed
                        else if warnings comparison \<noteq> [] then Warning
                        else Passed)
          in \<lparr> caseId = tc_id testCase,
               description = tc_description testCase,
               status = status,
               comparison = comparison,
               scoring = scoring,
               error = None \<rparr>)))))"

text \<open>
  \<^verbatim>\<open>runCasesWithConcurrency\<close> runs on the event loop.  Its state is the queue of pending
  cases, the counter \<^verbatim>\<open>activeCount\<close>, the cases whose \<^verbatim>\<open>runCase\<close> is awaited, the number of
  pending \<^verbatim>\<open>setTimeout(processNext, ...)\<close> callbacks, the results pushed so far and the
  value the promise has been resolved with, if any.
\<close>

record Pool =
  queue :: "TestCase list"
  activeCount :: nat
  inFlight :: "TestCase list"
  timers :: nat
  results :: "TestCaseResult list"
  resolved :: "TestCaseResult list option"

definition initialPool :: "TestCase list \<Rightarrow> Pool" where
  "initialPool cases = \<lparr> queue = cases, activeCount = 0, inFlight = [], timers = 0,
     results = [], resolved = None \<rparr>"

text \<open>
  \<^verbatim>\<open>processNext\<close> up to its \<^verbatim>\<open>await\<close>: resolve the promise when nothing is pending or
  active (a promise keeps the first value it is resolved with); otherwise take the next
  case off the queue when a slot is free; otherwise do nothing.
\<close>

definition processNext :: "nat \<Rightarrow> Pool \<Rightarrow> Pool" where
  "processNext maxParallel st =
     (if queue st = [] \<and> activeCount st = 0 then
        st\<lparr> resolved := (case resolved st of None \<Rightarrow> Some (results st) | Some r \<Rightarrow> Some r) \<rparr>
      else if activeCount st < maxParallel \<and> queue st \<noteq> [] then
        st\<lparr> queue := tl (queue st),
            activeCount := activeCount st + 1,
            inFlight := inFlight st @ [hd (queue st)] \<rparr>
      else st)"

text \<open>The initial batch: \<^verbatim>\<open>for (let i = 0; i < maxParallel && queue.length > 0; i++)\<close>.\<close>

function startBatch :: "nat \<Rightarrow> nat \<Rightarrow> Pool \<Rightarrow> Pool" where
  "startBatch i maxParallel st =
     (if i < maxParallel \<and> queue st \<noteq> []
      then startBatch (i + 1) maxParallel (processNext maxParallel st)
      else st)"
  by pat_completeness auto
termination
  by (relation "measure (\<lambda>(i, maxParallel, st). maxParallel - i)") auto

declare startBatch.simps [simp del]

text \<open>
  The two events after the initial batch.  An awaited \<^verbatim>\<open>runCase\<close> returns: its result is
  pushed, the counter goes down and a timer for \<^verbatim>\<open>processNext\<close> is set.  (\<^verbatim>\<open>runCase\<close> catches
  what its body throws and always returns, so the \<^verbatim>\<open>catch\<close> block around the \<^verbatim>\<open>await\<close>,
  lines 575 to 607, is never entered.)  Or a timer fires and \<^verbatim>\<open>processNext\<close> runs.  The
  cases in flight may return in any order.
\<close>

inductive poolStep :: "nat \<Rightarrow> builtins \<Rightarrow> DataFetcher \<Rightarrow> Pool \<Rightarrow> Pool \<Rightarrow> bool"
  for maxParallel :: nat and B :: builtins and dataFetcher :: DataFetcher where
  returns: "testCase \<in> set (inFlight st) \<Longrightarrow>
     poolStep maxParallel B dataFetcher st
       (st\<lparr> inFlight := remove1 testCase (inFlight st),
            results := results st @ [runCase B dataFetcher testCase],
            activeCount := activeCount st - 1,
            timers := timers st + 1 \<rparr>)"
| fires: "0 < timers st \<Longrightarrow>
     poolStep maxParallel B dataFetcher st
       (processNext maxParallel (st\<lparr> timers := timers st - 1 \<rparr>))"

inductive reachable :: "nat \<Rightarrow> builtins \<Rightarrow> DataFetcher \<Rightarrow> TestCase list \<Rightarrow> Pool \<Rightarrow> bool"
  for maxParallel :: nat and B :: builtins and dataFetcher :: DataFetcher
    and cases :: "TestCase list" where
  start: "reachable maxParallel B dataFetcher cases (startBatch 0 maxParallel (initialPool cases))"
| step: "reachable maxParallel B dataFetcher cases st \<Longrightarrow>
     poolStep maxParallel B dataFetcher st st' \<Longrightarrow>
     reachable maxParallel B dataFetcher cases st'"

text \<open>
  The work left in a state: it goes down with every event, so every run is finite.
\<close>

definition workLeft :: "Pool \<Rightarrow> nat" where
  "workLeft st = 3 * length (queue st) + 2 * length (inFlight st) + timers st"

text \<open>
  \<^verbatim>\<open>runSuite\<close> reads \<^verbatim>\<open>maxParallel\<close> with the default 3 and builds the suite result from
  the list the promise is resolved with: the counts by status, the list itself and the
  three averages (names, version and clock readings left out).
\<close>

definition effectiveMaxParallel :: "nat option \<Rightarrow> nat" where
  "effectiveMaxParallel configured =
     (case configured of None \<Rightarrow> 3 | Some n \<Rightarrow> if n = 0 then 3 else n)"

record AggregatedScoring =
  averageScore :: real
  averageCompleteness :: real
  averageAccuracy :: real

record TestSuiteResult =
  totalCases :: nat
  passedCases :: nat
  failedCases :: nat
  warningCases :: nat
  suiteCases :: "TestCaseResult list"
  aggregatedScoring :: AggregatedScoring

definition average :: "real list \<Rightarrow> real" where
  "average xs = (if length xs > 0 then fdiv (foldl fadd 0 xs) (real (length xs)) else 0)"

definition suiteResult :: "TestCase list \<Rightarrow> TestCaseResult list \<Rightarrow> TestSuiteResult" where
  "suiteResult cases caseResults =
     \<lparr> totalCases = length cases,
       passedCases = length (filter (\<lambda>r. status r = Passed) caseResults),
       failedCases = length (filter (\<lambda>r. status r \<noteq> Passed \<and> status r = Failed) caseResults),
       warningCases = length (filter (\<lambda>r. status r \<noteq> Passed \<and> status r \<noteq> Failed) caseResults),
       suiteCases = caseResults,
       aggregatedScoring =
         \<lparr> averageScore = fdiv (mathRound (fmul (average (map (\<lambda>r. overallScore (scoring r)) caseResults)) 100)) 100,
           averageCompleteness = fdiv (mathRound (fmul (average (map (\<lambda>r. completenessScore (scoring r)) caseResults)) 100)) 100,
           averageAccuracy = fdiv (mathRound (fmul (average (map (\<lambda>r. accuracyScore (scoring r)) caseResults)) 100)) 100 \<rparr> \<rparr>"

text \<open>
  A data fetcher and two test cases for the examples: the source \<^verbatim>\<open>missing.json\<close> cannot be
  read, every other source holds \<^verbatim>\<open>{"x": 1}\<close>, and the service returns its input.
\<close>

definition exampleFetcher :: DataFetcher where
  "exampleFetcher =
     \<lparr> fetchData = (\<lambda>source. if source = ''missing.json''
                        then Inl (ErrorObject ''Failed to read file: missing.json'')
                        else Inr (JObj [(''x'', JNum 1)])),
       executeService = (\<lambda>endpoint method input. Inr input) \<rparr>"

definition exampleCase :: "string \<Rightarrow> string \<Rightarrow> TestCase" where
  "exampleCase name source =
     \<lparr> tc_id = name, tc_description = None, tc_input = source, tc_groundTruth = ''truth.json'',
       tc_endpoint = ''http://localhost:8000/extract'', tc_method = None,
       comparisonRules = defaultRules, scoringConfig = defaultScoring \<rparr>"

definition brokenCase :: TestCase where
  "brokenCase = exampleCase ''broken'' ''missing.json''"

definition soundCase :: TestCase where
  "soundCase = exampleCase ''sound'' ''input.json''"

section \<open>Notions used to state properties of the pool\<close>

text \<open>
  What holds in every state of a run: every case is in exactly one of the three places
  (pushed result, in flight, queue); the counter is the number of cases in flight; once
  the promise is resolved, its value is the list of results and nothing is left.
\<close>

definition accounted :: "builtins \<Rightarrow> DataFetcher \<Rightarrow> TestCase list \<Rightarrow> Pool \<Rightarrow> bool" where
  "accounted B dataFetcher cases st \<longleftrightarrow>
     mset (results st) + mset (map (runCase B dataFetcher) (inFlight st))
       + mset (map (runCase B dataFetcher) (queue st)) = mset (map (runCase B dataFetcher) cases)
     \<and> activeCount st = length (inFlight st)
     \<and> (\<forall>rs. resolved st = Some rs \<longrightarrow> rs = results st \<and> queue st = [] \<and> inFlight st = [])"

text \<open>Before the promise is resolved, a case is in flight or a timer is pending.\<close>

definition busy :: "Pool \<Rightarrow> bool" where
  "busy st \<longleftrightarrow> (resolved st = None \<longrightarrow> inFlight st \<noteq> [] \<or> 0 < timers st)"

section \<open>Notions used to state properties of the conversions\<close>

text \<open>No object inside the value has an own property named \<^verbatim>\<open>toString\<close>.\<close>

fun convertible :: "json \<Rightarrow> bool" where
  "convertible (JArr xs) = (\<forall>x \<in> set xs. convertible x)"
| "convertible (JObj kvs) =
     (''toString'' \<notin> set (map fst kvs) \<and> (\<forall>kv \<in> set kvs. convertible (snd kv)))"
| "convertible _ = True"

text \<open>A boolean, a number, a string or \<^verbatim>\<open>null\<close>.\<close>

fun primitive :: "json \<Rightarrow> bool" where
  "primitive (JArr xs) = False"
| "primitive (JObj kvs) = False"
| "primitive _ = True"

section \<open>A comparison with many paths\<close>

text \<open>
  The object with \<open>n\<close> fields named by one letter, written once, twice, ..., \<open>n\<close> times,
  every field \<^verbatim>\<open>null\<close>: \<^verbatim>\<open>{"a": null, "aa": null, "aaa": null}\<close> for the letter \<^verbatim>\<open>a\<close>
  and \<open>n = 3\<close>.
\<close>

definition manyFields :: "char \<Rightarrow> nat \<Rightarrow> json" where
  "manyFields letter n = JObj (map (\<lambda>i. (replicate (Suc i) letter, JNull)) [0..<n])"

text \<open>
  The result of comparing the ground truth that has the 160 fields \<^verbatim>\<open>a\<close>, \<^verbatim>\<open>aa\<close>, ... with
  the output that has the 23 fields \<^verbatim>\<open>b\<close>, \<^verbatim>\<open>bb\<close>, ...: 160 missing fields and 23 extra
  fields.
\<close>

definition manyMissing :: ComparisonResult where
  "manyMissing =
     \<lparr> passed = False, mismatches = [],
       missing = map (\<lambda>i. \<lparr> ms_path = replicate (Suc i) (CHR ''a''), ms_expectedValue = JNull \<rparr>)
                   [0..<160],
       extra = map (\<lambda>i. \<lparr> ex_path = replicate (Suc i) (CHR ''b''), ex_value = JNull \<rparr>) [0..<23],
       warnings = [] \<rparr>"

section \<open>Properties of double-precision arithmetic\<close>

lemma fsub_self: "fsub x x = 0"
  by (simp add: fsub_def roundToDouble_def)

lemmas double_eval = fadd_def fsub_def fmul_def fdiv_def roundToDouble_def binade_def
  halvings.simps doublings.simps roundTiesEven_def Let_def

text \<open>
  Two known values: the double nearest to one tenth, and the sum of the doubles nearest
  to 0.1 and 0.2, which is not the double nearest to 0.3.
\<close>

lemma double_known_values:
  "roundToDouble (1 / 10) = 3602879701896397 / 2 ^ 55"
  "fadd (roundToDouble (1 / 10)) (roundToDouble (2 / 10)) = 1351079888211149 / 2 ^ 52"
  "roundToDouble (3 / 10) = 5404319552844595 / 2 ^ 54"
  by (simp_all add: double_eval)

lemma fsub_examples: "fsub 10 10 = 0" "fsub 10 12 = - 2" "fsub 1 2 = - 1"
  by (simp_all add: double_eval)

lemma double_examples:
  "fdiv 0 1 = 0" "fmul 0 100 = 0" "fdiv 0 100 = 0"
  "fdiv 1 1 = 1" "fmul 1 100 = 100" "fmul 100 100 = 10000" "fdiv 10000 100 = 100"
  "fmul 1 10 = 10" "fadd 0 10 = 10" "fmul 0 5 = 0" "fadd 10 0 = 10" "fmul 2 2 = 4"
  "fadd 10 4 = 14" "fdiv 14 1 = 14" "fmul 14 10 = 140" "fsub 100 140 = - 40"
  "fdiv 2 1 = 2" "fmul 2 100 = 200" "fmul 200 100 = 20000" "fdiv 20000 100 = 200"
  "fdiv (- 1) 1 = - 1" "fmul (- 1) 100 = - 100" "fmul (- 100) 100 = - 10000"
  "fdiv (- 10000) 100 = - 100"
  by (simp_all add: double_eval)

lemma mathRound_examples:
  "mathRound 0 = 0" "mathRound 10000 = 10000" "mathRound 20000 = 20000"
  "mathRound (- 10000) = - 10000"
  by (simp_all add: mathRound_def)

text \<open>
  The error of one rounding: at most \<open>2\<^sup>-\<^sup>5\<^sup>3\<close> of the value in the normal range, and
  at most half the spacing of the subnormal numbers below it.
\<close>

lemma halvings_bound: "1 \<le> a \<Longrightarrow> 2 ^ halvings a \<le> a"
proof (induction a rule: halvings.induct)
  case (1 a)
  show ?case
  proof (cases "a < 2")
    case True
    then show ?thesis
      using "1.prems" by (simp add: halvings.simps)
  next
    case False
    then have "2 ^ halvings (a / 2) \<le> a / 2"
      using "1.IH" by simp
    then show ?thesis
      using False by (subst halvings.simps) simp
  qed
qed

lemma doublings_bound: "0 < a \<Longrightarrow> a < 1 \<Longrightarrow> 1 \<le> 2 ^ doublings a * a"
proof (induction a rule: doublings.induct)
  case (1 a)
  show ?case
  proof (cases "2 * a < 1")
    case True
    then have "1 \<le> 2 ^ doublings (2 * a) * (2 * a)"
      using "1.IH" "1.prems" by simp
    then show ?thesis
      using "1.prems" by (subst doublings.simps) (simp add: mult.assoc)
  next
    case False
    then have "doublings (2 * a) = 0"
      by (simp add: doublings.simps)
    then show ?thesis
      using False "1.prems" by (subst doublings.simps) simp
  qed
qed

lemma binade_bound:
  assumes "0 < a"
  shows "2 powi (binade a - 53) \<le> a / 2 ^ 53 + 1 / 2 ^ 1075"
proof -
  have split: "2 powi (binade a - 53) = 2 powi (binade a) / (2 ^ 53 :: real)"
    by (simp add: power_int_diff)
  show ?thesis
  proof (cases "1 \<le> a")
    case True
    then have "2 powi (binade a) \<le> a"
      using halvings_bound [OF True] by (simp add: binade_def)
    then have "2 powi (binade a) / (2 ^ 53 :: real) \<le> a / 2 ^ 53"
      by (simp add: divide_right_mono)
    then show ?thesis
      unfolding split by simp
  next
    case False
    then have small: "a < 1"
      by simp
    show ?thesis
    proof (cases "- int (doublings a) < - 1022")
      case True
      then have "binade a = - 1022"
        using small by (simp add: binade_def)
      then have "2 powi (binade a - 53) = (1 / 2 ^ 1075 :: real)"
        by (simp add: power_int_minus field_simps)
      then show ?thesis
        using assms by simp
    next
      case False
      then have b: "binade a = - int (doublings a)"
        using small by (simp add: binade_def)
      have "1 \<le> 2 ^ doublings a * a"
        using doublings_bound [OF assms small] .
      then have "2 powi (binade a) \<le> a"
        unfolding b by (simp add: power_int_minus field_simps)
      then have "2 powi (binade a) / (2 ^ 53 :: real) \<le> a / 2 ^ 53"
        by (simp add: divide_right_mono)
      then show ?thesis
        unfolding split by simp
    qed
  qed
qed

lemma roundTiesEven_bound: "\<bar>of_int (roundTiesEven z) - z\<bar> \<le> 1 / 2"
  unfolding roundTiesEven_def Let_def by (auto; linarith)

lemma roundToDouble_error: "\<bar>roundToDouble y - y\<bar> \<le> \<bar>y\<bar> / 2 ^ 53 + 1 / 2 ^ 1075"
proof (cases "y = 0")
  case True
  then show ?thesis
    by (simp add: roundToDouble_def)
next
  case False
  define q :: real where "q = 2 powi (binade \<bar>y\<bar> - 52)"
  have qpos: "0 < q"
    by (simp add: q_def)
  have half: "q / 2 = 2 powi (binade \<bar>y\<bar> - 53)"
    by (simp add: q_def power_int_diff)
  have "roundToDouble y - y = q * (of_int (roundTiesEven (y / q)) - y / q)"
    using False qpos by (simp add: roundToDouble_def Let_def q_def [symmetric] field_simps)
  then have "\<bar>roundToDouble y - y\<bar> = q * \<bar>of_int (roundTiesEven (y / q)) - y / q\<bar>"
    using qpos by (simp add: abs_mult)
  also have "\<dots> \<le> q * (1 / 2)"
    using qpos roundTiesEven_bound [of "y / q"] by (simp add: mult_left_mono)
  also have "\<dots> = 2 powi (binade \<bar>y\<bar> - 53)"
    using half by simp
  also have "\<dots> \<le> \<bar>y\<bar> / 2 ^ 53 + 1 / 2 ^ 1075"
    using binade_bound [of "\<bar>y\<bar>"] False by simp
  finally show ?thesis .
qed

lemma roundToDouble_close: "\<bar>roundToDouble y - y\<bar> \<le> \<bar>y\<bar> / 2 ^ 53 + 1 / 2 ^ 100"
proof -
  have "(1 / 2 ^ 1075 :: real) \<le> 1 / 2 ^ 100"
    by (intro divide_left_mono power_increasing) simp_all
  then show ?thesis
    using roundToDouble_error [of y] by linarith
qed

lemma mathRound_close: "\<bar>mathRound s - s\<bar> \<le> 1 / 2"
  unfolding mathRound_def by linarith

lemma twoDecimals_close:
  "\<bar>fdiv (mathRound (fmul x 100)) 100 - x\<bar> \<le> 1 / 200 + (2 * \<bar>x\<bar> + 1) / 2 ^ 52"
proof -
  define s where "s = fmul x 100"
  define m where "m = mathRound s"
  define r where "r = fdiv m 100"
  have 1: "\<bar>s - x * 100\<bar> \<le> \<bar>x * 100\<bar> / 2 ^ 53 + 1 / 2 ^ 100"
    unfolding s_def fmul_def by (rule roundToDouble_close)
  have 2: "\<bar>m - s\<bar> \<le> 1 / 2"
    unfolding m_def by (rule mathRound_close)
  have 3: "\<bar>r - m / 100\<bar> \<le> \<bar>m / 100\<bar> / 2 ^ 53 + 1 / 2 ^ 100"
    unfolding r_def fdiv_def by (rule roundToDouble_close)
  have "\<bar>r - x\<bar> \<le> 1 / 200 + (2 * \<bar>x\<bar> + 1) / 2 ^ 52"
    using 1 2 3 by (simp add: abs_if field_simps split: if_splits) 
  then show ?thesis
    unfolding r_def m_def s_def .
qed

lemma percent_close:
  "\<bar>fmul (fdiv a t) 100 - a / t * 100\<bar> \<le> (\<bar>a / t * 100\<bar> + 1) / 2 ^ 51"
proof -
  define Y where "Y = a / t"
  define q where "q = fdiv a t"
  define x where "x = fmul q 100"
  have 1: "\<bar>q - Y\<bar> \<le> \<bar>Y\<bar> / 2 ^ 53 + 1 / 2 ^ 100"
    unfolding q_def Y_def fdiv_def by (rule roundToDouble_close)
  have 2: "\<bar>x - q * 100\<bar> \<le> \<bar>q * 100\<bar> / 2 ^ 53 + 1 / 2 ^ 100"
    unfolding x_def fmul_def by (rule roundToDouble_close)
  have "\<bar>x - Y * 100\<bar> \<le> (\<bar>Y * 100\<bar> + 1) / 2 ^ 51"
    using 1 2 by (simp add: abs_if field_simps split: if_splits)
  then show ?thesis
    unfolding x_def q_def Y_def .
qed

lemma percentScore_close:
  "\<bar>fdiv (mathRound (fmul (fmul (fdiv a t) 100) 100)) 100 - a / t * 100\<bar>
     \<le> 1 / 200 + (\<bar>a / t * 100\<bar> + 1) / 2 ^ 49"
proof -
  define X where "X = a / t * 100"
  define x where "x = fmul (fdiv a t) 100"
  define r where "r = fdiv (mathRound (fmul x 100)) 100"
  have 1: "\<bar>x - X\<bar> \<le> (\<bar>X\<bar> + 1) / 2 ^ 51"
    unfolding x_def X_def by (rule percent_close)
  have 2: "\<bar>r - x\<bar> \<le> 1 / 200 + (2 * \<bar>x\<bar> + 1) / 2 ^ 52"
    unfolding r_def by (rule twoDecimals_close)
  have "\<bar>r - X\<bar> \<le> 1 / 200 + (\<bar>X\<bar> + 1) / 2 ^ 49"
    using 1 2 by (simp add: abs_if field_simps split: if_splits)
  then show ?thesis
    unfolding r_def x_def X_def .
qed

lemma penalty_close:
  assumes "0 \<le> u1" and "0 \<le> u2" and "0 \<le> u3"
  shows "\<bar>fadd (fadd (fadd 0 (roundToDouble u1)) (roundToDouble u2)) (roundToDouble u3)
           - (u1 + u2 + u3)\<bar> \<le> (u1 + u2 + u3) / 2 ^ 50 + 1 / 2 ^ 90"
proof -
  define a1 where "a1 = roundToDouble u1"
  define a2 where "a2 = roundToDouble u2"
  define a3 where "a3 = roundToDouble u3"
  define b1 where "b1 = fadd 0 a1"
  define b2 where "b2 = fadd b1 a2"
  define b3 where "b3 = fadd b2 a3"
  have a: "\<bar>a1 - u1\<bar> \<le> \<bar>u1\<bar> / 2 ^ 53 + 1 / 2 ^ 100"
      "\<bar>a2 - u2\<bar> \<le> \<bar>u2\<bar> / 2 ^ 53 + 1 / 2 ^ 100"
      "\<bar>a3 - u3\<bar> \<le> \<bar>u3\<bar> / 2 ^ 53 + 1 / 2 ^ 100"
    unfolding a1_def a2_def a3_def by (rule roundToDouble_close)+
  have b: "\<bar>b1 - (0 + a1)\<bar> \<le> \<bar>0 + a1\<bar> / 2 ^ 53 + 1 / 2 ^ 100"
      "\<bar>b2 - (b1 + a2)\<bar> \<le> \<bar>b1 + a2\<bar> / 2 ^ 53 + 1 / 2 ^ 100"
      "\<bar>b3 - (b2 + a3)\<bar> \<le> \<bar>b2 + a3\<bar> / 2 ^ 53 + 1 / 2 ^ 100"
    unfolding b1_def b2_def b3_def fadd_def by (rule roundToDouble_close)+
  have s1: "\<bar>b1 - u1\<bar> \<le> u1 * (3 / 2 ^ 53) + 3 / 2 ^ 100"
    using a(1) b(1) assms(1) by (simp add: abs_if field_simps split: if_splits)
  have s2: "\<bar>b2 - (u1 + u2)\<bar> \<le> (u1 + u2) * (5 / 2 ^ 53) + 6 / 2 ^ 100"
    using s1 a(2) b(2) assms(1,2) by (simp add: abs_if field_simps split: if_splits)
  have s3: "\<bar>b3 - (u1 + u2 + u3)\<bar> \<le> (u1 + u2 + u3) * (7 / 2 ^ 53) + 9 / 2 ^ 100"
    using s2 a(3) b(3) assms by (simp add: abs_if field_simps split: if_splits)
  have "\<bar>b3 - (u1 + u2 + u3)\<bar> \<le> (u1 + u2 + u3) / 2 ^ 50 + 1 / 2 ^ 90"
    using s3 assms by (simp add: abs_if field_simps split: if_splits)
  then show ?thesis
    unfolding b3_def b2_def b1_def a1_def a2_def a3_def .
qed

lemma overall_close:
  assumes "0 \<le> u1" and "0 \<le> u2" and "0 \<le> u3" and "1 \<le> t"
  shows "\<bar>fdiv (mathRound (fmul (max 0 (fsub 100 (fmul (fdiv
             (fadd (fadd (fadd 0 (roundToDouble u1)) (roundToDouble u2)) (roundToDouble u3))
             t) 10))) 100)) 100
           - max 0 (100 - (u1 + u2 + u3) / t * 10)\<bar>
         \<le> 1 / 200 + ((u1 + u2 + u3) / t * 10 + 100) / 2 ^ 49"
proof -
  define P where "P = u1 + u2 + u3"
  define W where "W = P / t"
  define b where "b = fadd (fadd (fadd 0 (roundToDouble u1)) (roundToDouble u2)) (roundToDouble u3)"
  define v where "v = b / t"
  define d where "d = roundToDouble v"
  define e where "e = fmul d 10"
  define f where "f = fsub 100 e"
  define g where "g = max 0 f"
  define r where "r = fdiv (mathRound (fmul g 100)) 100"
  have P0: "0 \<le> P" and W0: "0 \<le> W"
    using assms by (simp_all add: P_def W_def)
  have tpos: "0 < t"
    using assms(4) by simp
  have "\<bar>b - P\<bar> \<le> P / 2 ^ 50 + 1 / 2 ^ 90"
    unfolding b_def P_def using assms(1-3) by (rule penalty_close)
  then have "\<bar>b - P\<bar> / t \<le> (P / 2 ^ 50 + 1 / 2 ^ 90) / t"
    using tpos by (simp add: divide_right_mono)
  moreover have "\<bar>b - P\<bar> / t = \<bar>v - W\<bar>"
    using tpos by (simp add: v_def W_def diff_divide_distrib [symmetric])
  moreover have "(P / 2 ^ 50 + 1 / 2 ^ 90) / t = W / 2 ^ 50 + (1 / 2 ^ 90) / t"
    by (simp add: W_def add_divide_distrib)
  moreover have "(1 / 2 ^ 90) / t \<le> (1 / 2 ^ 90 :: real)"
    using assms(4) by (simp add: field_simps)
  ultimately have v: "\<bar>v - W\<bar> \<le> W / 2 ^ 50 + 1 / 2 ^ 90"
    by linarith
  have "\<bar>d - v\<bar> \<le> \<bar>v\<bar> / 2 ^ 53 + 1 / 2 ^ 100"
    unfolding d_def by (rule roundToDouble_close)
  then have s1: "\<bar>d - W\<bar> \<le> W * (10 / 2 ^ 53) + 2 / 2 ^ 90"
    using v W0 by (simp add: abs_if field_simps split: if_splits)
  have "\<bar>e - d * 10\<bar> \<le> \<bar>d * 10\<bar> / 2 ^ 53 + 1 / 2 ^ 100"
    unfolding e_def fmul_def by (rule roundToDouble_close)
  then have s2: "\<bar>e - W * 10\<bar> \<le> W * 10 * (12 / 2 ^ 53) + 30 / 2 ^ 90"
    using s1 W0 by (simp add: abs_if field_simps split: if_splits)
  have "\<bar>f - (100 - e)\<bar> \<le> \<bar>100 - e\<bar> / 2 ^ 53 + 1 / 2 ^ 100"
    unfolding f_def fsub_def by (rule roundToDouble_close)
  then have s3: "\<bar>f - (100 - W * 10)\<bar> \<le> W * 10 * (14 / 2 ^ 53) + 101 / 2 ^ 53"
    using s2 W0 by (simp add: abs_if field_simps split: if_splits)
  have s4: "\<bar>g - max 0 (100 - W * 10)\<bar> \<le> W * 10 * (14 / 2 ^ 53) + 101 / 2 ^ 53"
    using s3 unfolding g_def by linarith
  have s5: "\<bar>g\<bar> \<le> 101 + W * 10 * (14 / 2 ^ 53)"
    using s4 W0 by (simp add: abs_if max_def field_simps split: if_splits)
  have "\<bar>r - g\<bar> \<le> 1 / 200 + (2 * \<bar>g\<bar> + 1) / 2 ^ 52"
    unfolding r_def by (rule twoDecimals_close)
  then have s6: "\<bar>r - g\<bar> \<le> 1 / 200 + W * 10 * (1 / 2 ^ 53) + 407 / 2 ^ 53"
    using s5 W0 by (simp add: abs_if field_simps split: if_splits)
  have "\<bar>r - max 0 (100 - W * 10)\<bar> \<le> 1 / 200 + (W * 10 + 100) / 2 ^ 49"
    using s4 s6 W0 by (simp add: abs_if max_def field_simps split: if_splits)
  then show ?thesis
    unfolding r_def g_def f_def e_def d_def v_def b_def W_def P_def fdiv_def [symmetric] .
qed

section \<open>Properties of the comparator\<close>

subsection \<open>The pass flag\<close>

lemma defaultRules_fields:
  "ignoreFields defaultRules = []" "arrayStrategy defaultRules = Unordered"
  "numericTolerance defaultRules = 0" "typeCoercion defaultRules" "extraFieldsWarning defaultRules"
  by (simp_all add: defaultRules_def)

lemma compare_extra_only:
  "compare B (JObj []) (JObj [(''extra'', JBool True)]) defaultRules =
     Some \<lparr> passed = False, mismatches = [], missing = [],
       extra = [\<lparr> ex_path = ''extra'', ex_value = JBool True \<rparr>], warnings = [] \<rparr>"
  by (simp add: compare_def emptyComparison_def defaultRules_def fieldPathOf_def pushExtra_def)

text \<open>
  C1 (as the code has it).  Whenever \<^verbatim>\<open>compare\<close> returns, the comparison fails exactly when
  there is a mismatch, or a missing field, or there is an extra field and the flag
  \<^verbatim>\<open>extraFieldsWarning\<close> is set: line 39 lets extra fields through when the flag is off.
\<close>

theorem compare_passed_iff:
  "compare B groundTruth actual rules = Some returned \<Longrightarrow>
     (passed returned = False \<longleftrightarrow>
        (mismatches returned \<noteq> [] \<or> missing returned \<noteq> [] \<or>
         (extra returned \<noteq> [] \<and> extraFieldsWarning rules)))"
  by (auto simp: compare_def Let_def split: option.splits)

theorem compare_passed_iff_witness:
  "compare exampleBuiltins (JObj []) (JObj [(''extra'', JBool True)]) defaultRules =
     Some \<lparr> passed = False, mismatches = [], missing = [],
       extra = [\<lparr> ex_path = ''extra'', ex_value = JBool True \<rparr>], warnings = [] \<rparr>
   \<and> extraFieldsWarning defaultRules
   \<and> (passed \<lparr> passed = False, mismatches = [], missing = [],
         extra = [\<lparr> ex_path = ''extra'', ex_value = JBool True \<rparr>], warnings = [] \<rparr> = False \<longleftrightarrow>
       (extra \<lparr> passed = False, mismatches = [], missing = [],
         extra = [\<lparr> ex_path = ''extra'', ex_value = JBool True \<rparr>], warnings = [] \<rparr> \<noteq> []
        \<and> extraFieldsWarning defaultRules))"
  using compare_passed_iff [OF compare_extra_only [of exampleBuiltins]]
  by (simp add: compare_extra_only defaultRules_fields)

text \<open>
  C1 as the specification states it, with the flag negated, fails: with the default rules
  (flag set) the ground truth \<^verbatim>\<open>{}\<close> and the output \<^verbatim>\<open>{"extra": true}\<close> give a failed
  comparison with no mismatch and no missing field.
\<close>

theorem compare_passed_disabled_counterexample:
  "\<exists>returned. compare exampleBuiltins (JObj []) (JObj [(''extra'', JBool True)]) defaultRules = Some returned
     \<and> \<not> (passed returned = False \<longleftrightarrow>
            (mismatches returned \<noteq> [] \<or> missing returned \<noteq> [] \<or>
             (extra returned \<noteq> [] \<and> \<not> extraFieldsWarning defaultRules)))"
  by (simp add: compare_extra_only defaultRules_fields)

subsection \<open>Unordered comparison of arrays\<close>

lemma those_map_Some: "those (map Some ys) = Some ys"
  by (induction ys) simp_all

lemma those_map_defined:
  assumes "\<forall>x \<in> set xs. f x \<noteq> None"
  shows "\<exists>ys. those (map f xs) = Some ys \<and> map f xs = map Some ys"
  using assms by (induction xs) auto

lemma missingItems_fields:
  assumes "\<forall>x \<in> set xs. jsString B x \<noteq> None"
  shows "missingItems B xs S path result =
     Some (result\<lparr> missing := missing result @
       [\<lparr> ms_path = path @ ''[]'', ms_expectedValue = x \<rparr>. x \<leftarrow> xs, jsString B x \<notin> Some ` S] \<rparr>)"
  using assms by (induction xs arbitrary: result) (auto simp: pushMissing_def)

lemma extraItems_fields:
  assumes "\<forall>x \<in> set xs. jsString B x \<noteq> None"
  shows "extraItems B xs S path result =
     Some (result\<lparr> extra := extra result @
       [\<lparr> ex_path = path @ ''[]'', ex_value = x \<rparr>. x \<leftarrow> xs, jsString B x \<notin> Some ` S] \<rparr>)"
  using assms by (induction xs arbitrary: result) (auto simp: pushExtra_def)

lemma compareUnordered_fields:
  assumes "\<forall>x \<in> set gt \<union> set actual. jsString B x \<noteq> None"
  shows "compareUnordered B gt actual path result =
     Some (result\<lparr>
       missing := missing result @
         [\<lparr> ms_path = path @ ''[]'', ms_expectedValue = g \<rparr>.
            g \<leftarrow> gt, jsString B g \<notin> set (map (jsString B) actual)],
       extra := extra result @
         [\<lparr> ex_path = path @ ''[]'', ex_value = a \<rparr>.
            a \<leftarrow> actual, jsString B a \<notin> set (map (jsString B) gt)],
       warnings := warnings result @
         (if length gt = length actual \<and> stringify B (JArr gt) \<noteq> stringify B (JArr actual)
          then [\<lparr> w_path = path, w_message = ''Array order differs (unordered comparison enabled)'' \<rparr>]
          else []) \<rparr>)"
proof -
  obtain gtStrings where gs: "those (map (jsString B) gt) = Some gtStrings"
    and gm: "map (jsString B) gt = map Some gtStrings"
    using those_map_defined [of gt "jsString B"] assms by auto
  obtain actualStrings where as: "those (map (jsString B) actual) = Some actualStrings"
    and am: "map (jsString B) actual = map Some actualStrings"
    using those_map_defined [of actual "jsString B"] assms by auto
  have gset: "Some ` set gtStrings = set (map (jsString B) gt)"
    unfolding gm by simp
  have aset: "Some ` set actualStrings = set (map (jsString B) actual)"
    unfolding am by simp
  have m: "missingItems B gt (set actualStrings) path result =
     Some (result\<lparr> missing := missing result @
       [\<lparr> ms_path = path @ ''[]'', ms_expectedValue = x \<rparr>. x \<leftarrow> gt,
          jsString B x \<notin> set (map (jsString B) actual)] \<rparr>)"
    using missingItems_fields [of gt B "set actualStrings" path result] assms
    unfolding aset by simp
  have e: "extraItems B actual (set gtStrings) path r =
     Some (r\<lparr> extra := extra r @
       [\<lparr> ex_path = path @ ''[]'', ex_value = x \<rparr>. x \<leftarrow> actual,
          jsString B x \<notin> set (map (jsString B) gt)] \<rparr>)" for r
    using extraItems_fields [of actual B "set gtStrings" path r] assms
    unfolding gset by simp
  show ?thesis
    by (simp add: compareUnordered_def gs as m e pushWarning_def)
qed

lemma jsString_primitive: "primitive x \<Longrightarrow> jsString B x \<noteq> None"
  by (cases x) simp_all

text \<open>
  For two arrays of primitives (booleans, numbers, strings and \<^verbatim>\<open>null\<close>), the unordered
  branch of \<^verbatim>\<open>compareArrays\<close> reports as missing exactly the ground-truth items whose string
  conversion does not occur among the converted actual items, and as extra exactly the
  actual items whose conversion does not occur among the converted ground-truth items, all
  at the path suffixed \<^verbatim>\<open>[]\<close>; it records no mismatch, and the order warning when the
  lengths are equal and the serialisations differ.  A reordering has neither missing nor
  extra items.  \<^verbatim>\<open>compareObject\<close> takes this branch when the first ground-truth
  element, if there is one, is not \<^verbatim>\<open>null\<close>.
\<close>

lemma compareArrays_unordered:
  assumes "arrayStrategy rules = Unordered"
    and "\<forall>x \<in> set gt \<union> set actual. primitive x"
  shows "compareArrays B gt actual path ignoreSet result rules =
     Some (result\<lparr>
       missing := missing result @
         [\<lparr> ms_path = path @ ''[]'', ms_expectedValue = g \<rparr>.
            g \<leftarrow> gt, jsString B g \<notin># mset (map (jsString B) actual)],
       extra := extra result @
         [\<lparr> ex_path = path @ ''[]'', ex_value = a \<rparr>.
            a \<leftarrow> actual, jsString B a \<notin># mset (map (jsString B) gt)],
       warnings := warnings result @
         (if length gt = length actual \<and> stringify B (JArr gt) \<noteq> stringify B (JArr actual)
          then [\<lparr> w_path = path, w_message = ''Array order differs (unordered comparison enabled)'' \<rparr>]
          else []) \<rparr>)"
    and "mset actual = mset gt \<Longrightarrow>
       compareArrays B gt actual path ignoreSet result rules =
         Some (if stringify B (JArr gt) \<noteq> stringify B (JArr actual)
               then pushWarning path ''Array order differs (unordered comparison enabled)'' result
               else result)"
    and "(gt \<noteq> [] \<longrightarrow> hd gt \<noteq> JNull) \<Longrightarrow>
       compareObject B (JArr gt) (JArr actual) path ignoreSet result rules =
         (if gt = [] \<and> actual = [] then Some result
          else compareArrays B gt actual path ignoreSet result rules)"
proof -
  have defined: "\<forall>x \<in> set gt \<union> set actual. jsString B x \<noteq> None"
    using assms(2) jsString_primitive by blast
  show general: "compareArrays B gt actual path ignoreSet result rules =
     Some (result\<lparr>
       missing := missing result @
         [\<lparr> ms_path = path @ ''[]'', ms_expectedValue = g \<rparr>.
            g \<leftarrow> gt, jsString B g \<notin># mset (map (jsString B) actual)],
       extra := extra result @
         [\<lparr> ex_path = path @ ''[]'', ex_value = a \<rparr>.
            a \<leftarrow> actual, jsString B a \<notin># mset (map (jsString B) gt)],
       warnings := warnings result @
         (if length gt = length actual \<and> stringify B (JArr gt) \<noteq> stringify B (JArr actual)
          then [\<lparr> w_path = path, w_message = ''Array order differs (unordered comparison enabled)'' \<rparr>]
          else []) \<rparr>)"
    using assms(1) compareUnordered_fields [OF defined, of path result] by simp
  show "compareArrays B gt actual path ignoreSet result rules =
         Some (if stringify B (JArr gt) \<noteq> stringify B (JArr actual)
               then pushWarning path ''Array order differs (unordered comparison enabled)'' result
               else result)" if perm: "mset actual = mset gt"
  proof -
    have sets: "set (map (jsString B) actual) = set (map (jsString B) gt)"
      and len: "length gt = length actual"
      using perm by (metis mset_eq_setD set_map, metis size_mset)
    have none: "[\<lparr> ms_path = path @ ''[]'', ms_expectedValue = g \<rparr>.
            g \<leftarrow> gt, jsString B g \<notin># mset (map (jsString B) actual)] = []"
      "[\<lparr> ex_path = path @ ''[]'', ex_value = a \<rparr>.
            a \<leftarrow> actual, jsString B a \<notin># mset (map (jsString B) gt)] = []"
      using sets by auto
    show ?thesis
      unfolding general none using len by (simp add: pushWarning_def)
  qed
  show "compareObject B (JArr gt) (JArr actual) path ignoreSet result rules =
         (if gt = [] \<and> actual = [] then Some result
          else compareArrays B gt actual path ignoreSet result rules)"
    if first: "gt \<noteq> [] \<longrightarrow> hd gt \<noteq> JNull"
  proof (cases gt)
    case Nil
    then show ?thesis by simp
  next
    case (Cons g rest)
    then have "primitive g" and "g \<noteq> JNull"
      using assms(2) first by simp_all
    then have "typeof g \<noteq> TObject"
      by (cases g) simp_all
    then show ?thesis
      using Cons by simp
  qed
qed

lemma natToString_digits: "natToString 0 = ''0''" "natToString (Suc 0) = ''1''"
  by (simp_all add: natToString.simps digitChar_def)

text \<open>
  C2 fails on the code for an array of primitives that begins with \<^verbatim>\<open>null\<close>.  Line 79
  takes an array for an array of objects when \<^verbatim>\<open>typeof gt[0] === 'object'\<close>, which holds
  of \<^verbatim>\<open>null\<close>, and compares it position by position.  With the default rules (unordered)
  the ground truth \<^verbatim>\<open>{"t": [null, 1]}\<close> against \<^verbatim>\<open>{"t": [1, null]}\<close>, a reordering, gives two
  value mismatches, at \<^verbatim>\<open>t[0]\<close> and \<^verbatim>\<open>t[1]\<close>, and no order warning, although the lengths
  are equal and the serialisations differ; the comparison fails.
\<close>

theorem unordered_null_first_compared_by_position:
  "mset [JNum 1, JNull] = mset [JNull, JNum 1]
   \<and> stringify exampleBuiltins (JArr [JNull, JNum 1]) \<noteq> stringify exampleBuiltins (JArr [JNum 1, JNull])
   \<and> compare exampleBuiltins (JObj [(''t'', JArr [JNull, JNum 1])])
       (JObj [(''t'', JArr [JNum 1, JNull])]) defaultRules =
     Some \<lparr> passed = False,
       mismatches = [\<lparr> mm_path = ''t[0]'', mm_groundTruth = JNull, mm_actual = JNum 1,
                        mm_type = ValueMismatch \<rparr>,
                     \<lparr> mm_path = ''t[1]'', mm_groundTruth = JNum 1, mm_actual = JNull,
                        mm_type = ValueMismatch \<rparr>],
       missing = [], extra = [], warnings = [] \<rparr>"
proof (intro conjI)
  show "mset [JNum 1, JNull] = mset [JNull, JNum 1]"
    by (simp add: add_mset_commute)
  show "stringify exampleBuiltins (JArr [JNull, JNum 1]) \<noteq> stringify exampleBuiltins (JArr [JNum 1, JNull])"
    by (simp add: exampleBuiltins_def exampleNumberToString_def natToString.simps digitChar_def)
  show "compare exampleBuiltins (JObj [(''t'', JArr [JNull, JNum 1])])
       (JObj [(''t'', JArr [JNum 1, JNull])]) defaultRules =
     Some \<lparr> passed = False,
       mismatches = [\<lparr> mm_path = ''t[0]'', mm_groundTruth = JNull, mm_actual = JNum 1,
                        mm_type = ValueMismatch \<rparr>,
                     \<lparr> mm_path = ''t[1]'', mm_groundTruth = JNum 1, mm_actual = JNull,
                        mm_type = ValueMismatch \<rparr>],
       missing = [], extra = [], warnings = [] \<rparr>"
    by (simp add: compare_def emptyComparison_def defaultRules_fields fieldPathOf_def
          itemPathOf_def natToString_digits pushMismatch_def)
qed

subsection \<open>Primitive leaves of differing type under coercion\<close>

text \<open>
  C6 (as the code has it).  Let the two leaves be booleans, numbers or strings of
  different \<^verbatim>\<open>typeof\<close>, with type coercion enabled.  When one is a number and the other
  a string that converts to a number, the two numbers are compared under the tolerance:
  no entry when they are within it, a mismatch of kind numeric otherwise.  In every other
  case the string conversions of the two values are compared: no entry when they are
  equal, a mismatch of kind value otherwise.
\<close>

theorem comparePrimitives_coercion:
  assumes "typeCoercion rules" and "typeof gt \<noteq> typeof actual"
    and "typeof gt \<noteq> TObject" and "typeof actual \<noteq> TObject"
  shows "(\<forall>g s a. gt = JNum g \<and> actual = JStr s \<and> toNumber B s = Some a \<longrightarrow>
            comparePrimitives B gt actual path result rules =
              Some (if \<bar>fsub g a\<bar> \<le> numericTolerance rules then result
                    else pushMismatch path gt actual NumericMismatch result))
       \<and> (\<forall>g s a. gt = JStr s \<and> actual = JNum a \<and> toNumber B s = Some g \<longrightarrow>
            comparePrimitives B gt actual path result rules =
              Some (if \<bar>fsub g a\<bar> \<le> numericTolerance rules then result
                    else pushMismatch path gt actual NumericMismatch result))
       \<and> (\<not> (\<exists>g s. gt = JNum g \<and> actual = JStr s \<and> toNumber B s \<noteq> None) \<and>
           \<not> (\<exists>s a. gt = JStr s \<and> actual = JNum a \<and> toNumber B s \<noteq> None) \<longrightarrow>
            comparePrimitives B gt actual path result rules =
              Some (if jsString B gt = jsString B actual then result
                    else pushMismatch path gt actual ValueMismatch result))"
  using assms
  by (cases gt; cases actual)
     (auto simp: comparePrimitives_def compareDirect_def Let_def split: option.splits)

theorem comparePrimitives_coercion_witness:
  "typeCoercion defaultRules
   \<and> typeof (JNum 10) \<noteq> typeof (JStr ''10'')
   \<and> toNumber exampleBuiltins ''10'' = Some 10
   \<and> comparePrimitives exampleBuiltins (JNum 10) (JStr ''10'') ''n'' emptyComparison defaultRules
       = Some emptyComparison
   \<and> comparePrimitives exampleBuiltins (JStr ''10'') (JNum 12) ''n'' emptyComparison defaultRules
       = Some (pushMismatch ''n'' (JStr ''10'') (JNum 12) NumericMismatch emptyComparison)
   \<and> comparePrimitives exampleBuiltins (JBool False) (JStr ''no'') ''n'' emptyComparison defaultRules
       = Some (pushMismatch ''n'' (JBool False) (JStr ''no'') ValueMismatch emptyComparison)"
proof -
  have num: "toNumber exampleBuiltins ''10'' = Some 10"
    by (simp add: exampleBuiltins_def exampleToNumber_def)
  show ?thesis
    using comparePrimitives_coercion [of defaultRules "JNum 10" "JStr ''10''" exampleBuiltins
            "''n''" emptyComparison]
          comparePrimitives_coercion [of defaultRules "JStr ''10''" "JNum 12" exampleBuiltins
            "''n''" emptyComparison]
          comparePrimitives_coercion [of defaultRules "JBool False" "JStr ''no''" exampleBuiltins
            "''n''" emptyComparison]
          num
    by (simp add: defaultRules_fields fsub_examples)
qed

text \<open>
  C6 as the specification states it fails in its last part: the boolean \<^verbatim>\<open>true\<close> and
  the string \<^verbatim>\<open>"true"\<close> are different values, and with type coercion the comparison
  records no mismatch for them, their string conversions being equal.
\<close>

theorem comparePrimitives_exact_equality_counterexample:
  "typeCoercion defaultRules
   \<and> typeof (JBool True) \<noteq> typeof (JStr ''true'')
   \<and> JBool True \<noteq> JStr ''true''
   \<and> map_option mismatches (comparePrimitives exampleBuiltins (JBool True) (JStr ''true'') ''flag''
        emptyComparison defaultRules) = Some []"
  by (simp add: comparePrimitives_def defaultRules_fields emptyComparison_def)

subsection \<open>Reflexivity\<close>

text \<open>
  C9 fails on the code.  The unordered branch converts every item of the two arrays to a
  string, and the conversion of an object that has an own property \<^verbatim>\<open>toString\<close> throws a
  \<^verbatim>\<open>TypeError\<close>: the comparison of the well-formed value \<^verbatim>\<open>[1, {"toString": 1}]\<close> with
  itself under the default rules returns no result.
\<close>

theorem compare_self_throws:
  "wellFormed (JArr [JNum 1, JObj [(''toString'', JNum 1)]])
   \<and> compare B (JArr [JNum 1, JObj [(''toString'', JNum 1)]])
       (JArr [JNum 1, JObj [(''toString'', JNum 1)]]) defaultRules = None"
  by (simp add: compare_def defaultRules_fields compareUnordered_def)

lemma jsString_convertible: "convertible v \<Longrightarrow> jsString B v \<noteq> None"
proof (induction B v rule: jsString.induct)
  case (5 B xs)
  have "\<forall>x \<in> set xs. (if x = JNull then Some [] else jsString B x) \<noteq> None"
    using 5 by auto
  then show ?case
    using those_map_defined [of xs "\<lambda>x. if x = JNull then Some [] else jsString B x"] by auto
qed simp_all

lemma comparePrimitives_self:
  "comparePrimitives B v v path result defaultRules = Some result"
  by (cases v) (simp_all add: comparePrimitives_def compareDirect_def defaultRules_fields fsub_self)

lemma compareUnordered_self:
  assumes "\<forall>x \<in> set gt. convertible x"
  shows "compareUnordered B gt gt path result = Some result"
proof -
  have defined: "\<forall>x \<in> set gt \<union> set gt. jsString B x \<noteq> None"
    using assms jsString_convertible by blast
  have none: "[\<lparr> ms_path = path @ ''[]'', ms_expectedValue = g \<rparr>.
            g \<leftarrow> gt, jsString B g \<notin> set (map (jsString B) gt)] = []"
      "[\<lparr> ex_path = path @ ''[]'', ex_value = a \<rparr>.
            a \<leftarrow> gt, jsString B a \<notin> set (map (jsString B) gt)] = []"
    by auto
  show ?thesis
    unfolding compareUnordered_fields [OF defined] none by simp
qed

lemma wellFormed_getProp:
  assumes "wellFormed (JObj kvs)" and "kv \<in> set kvs"
  shows "getProp (JObj kvs) (fst kv) = Some (snd kv) \<and> wellFormed (snd kv)"
  using assms by (cases kv) force

lemma compareObject_self_aux:
  "wellFormed gt \<longrightarrow> convertible gt \<longrightarrow> actual = gt \<longrightarrow> ignoreSet = {} \<longrightarrow> rules = defaultRules \<longrightarrow>
     compareObject B gt actual path ignoreSet result rules = Some result"
  "(\<forall>kv \<in> set gtEntries. getProp actual (fst kv) = Some (snd kv) \<and> wellFormed (snd kv)
        \<and> convertible (snd kv)) \<longrightarrow>
     ignoreSet = {} \<longrightarrow> rules = defaultRules \<longrightarrow>
     compareFields B gtEntries actual path ignoreSet result rules = Some result"
  "(\<forall>x \<in> set gtItems. wellFormed x \<and> convertible x) \<longrightarrow> actualItems = gtItems \<longrightarrow> ignoreSet = {} \<longrightarrow>
     rules = defaultRules \<longrightarrow>
     compareItems B i gtItems actualItems path ignoreSet result rules = Some result"
  "(\<forall>x \<in> set gtItems. wellFormed x \<and> convertible x) \<longrightarrow> actualItems = gtItems \<longrightarrow> ignoreSet = {} \<longrightarrow>
     rules = defaultRules \<longrightarrow>
     compareArrays B gtItems actualItems path ignoreSet result rules = Some result"
  "(\<forall>x \<in> set gtItems. wellFormed x \<and> convertible x) \<longrightarrow> actualItems = gtItems \<longrightarrow> ignoreSet = {} \<longrightarrow>
     rules = defaultRules \<longrightarrow>
     compareObjectArrays B gtItems actualItems path ignoreSet result rules = Some result"
proof (induct B gt actual path ignoreSet result rules
          and B gtEntries actual path ignoreSet result rules
          and B i gtItems actualItems path ignoreSet result rules
          and B gtItems actualItems path ignoreSet result rules
          and B gtItems actualItems path ignoreSet result rules
       rule: compareObject_compareFields_compareItems_compareArrays_compareObjectArrays.induct)
qed (auto simp: comparePrimitives_self compareUnordered_self defaultRules_fields Let_def)

lemma detectExtraFields_self_aux:
  "wellFormed gt \<longrightarrow> actual = gt \<longrightarrow>
     detectExtraFields gt actual path ignoreSet result = result"
  "(\<forall>kv \<in> set actualEntries. map_of gtEntries (fst kv) = Some (snd kv) \<and> wellFormed (snd kv)) \<longrightarrow>
     detectExtraKeys gtEntries actualEntries path ignoreSet result = result"
proof (induct gt actual path ignoreSet result and gtEntries actualEntries path ignoreSet result
       rule: detectExtraFields_detectExtraKeys.induct)
qed (auto simp: Let_def)

text \<open>
  The comparison of a value with itself under the default rules passes with no entry at
  all, when the keys of each object are pairwise distinct and no object has an own
  property \<^verbatim>\<open>toString\<close>.
\<close>

lemma compare_self:
  assumes "wellFormed v" and "convertible v"
  shows "compare B v v defaultRules = Some emptyComparison"
  using assms compareObject_self_aux(1) [of v v "{}" defaultRules B "[]" emptyComparison]
    detectExtraFields_self_aux(1) [of v v "[]" "{}" emptyComparison]
  by (simp add: compare_def defaultRules_fields) (simp add: emptyComparison_def)

subsection \<open>Ignored fields: bare key names\<close>











section \<open>Properties of the scorer\<close>

lemma set_fold_setAdd:
  "set (fold (\<lambda>m schema. setAdd (f m) schema) xs schema) = set schema \<union> f ` set xs"
  by (induction xs arbitrary: schema) (auto simp: setAdd_def)

lemma distinct_fold_setAdd:
  "distinct schema \<Longrightarrow> distinct (fold (\<lambda>m schema. setAdd (f m) schema) xs schema)"
  by (induction xs arbitrary: schema) (auto simp: setAdd_def)

lemma set_extractSchema:
  "set (extractSchema c) = mm_path ` set (mismatches c) \<union> ms_path ` set (missing c)"
  by (simp add: extractSchema_def set_fold_setAdd)

lemma distinct_extractSchema: "distinct (extractSchema c)"
  by (simp add: extractSchema_def distinct_fold_setAdd)

lemma length_extractSchema:
  "length (extractSchema c) = card (mm_path ` set (mismatches c) \<union> ms_path ` set (missing c))"
  using distinct_card [OF distinct_extractSchema, of c] by (simp add: set_extractSchema)

text \<open>
  C3.  When no path occurs in the mismatches or in the missing fields, the scorer returns
  the sentinel: 100, 100, 100 and 0, no field scores and a breakdown of zeros, whatever
  the extra entries and the scoring configuration are.
\<close>

theorem score_empty_universe:
  assumes "mm_path ` set (mismatches c) \<union> ms_path ` set (missing c) = {}"
  shows "overallScore (score c cfg) = 100 \<and> completenessScore (score c cfg) = 100 \<and>
         accuracyScore (score c cfg) = 100 \<and> extraFieldScore (score c cfg) = 0 \<and>
         fieldScores (score c cfg) = [] \<and>
         breakdown (score c cfg) = \<lparr> totalFields = 0, matchedFields = 0, missingFields = 0,
           mismatchedFields = 0, extraFields = 0 \<rparr>"
proof -
  have "length (extractSchema c) = 0"
    using assms by (simp add: length_extractSchema)
  then show ?thesis
    by (simp add: score_def emptyResult_def)
qed

theorem score_empty_universe_witness:
  "\<exists>c. compare exampleBuiltins (JObj []) (JObj [(''extra'', JBool True)]) defaultRules = Some c
     \<and> mm_path ` set (mismatches c) \<union> ms_path ` set (missing c) = {}
     \<and> length (extra c) = 1
     \<and> overallScore (score c defaultScoring) = 100
     \<and> extraFieldScore (score c defaultScoring) = 0"
  using score_empty_universe [of "\<lparr> passed = False, mismatches = [], missing = [],
       extra = [\<lparr> ex_path = ''extra'', ex_value = JBool True \<rparr>], warnings = [] \<rparr>" defaultScoring]
  by (simp add: compare_extra_only)

lemma score_nonempty:
  assumes "extractSchema c \<noteq> []"
  shows "completenessScore (score c cfg) =
           fdiv (mathRound (fmul (fmul (fdiv
               (real_of_int (int (length (extractSchema c)) - int (length (missing c))
                  - int (length (mismatches c))))
               (real (length (extractSchema c)))) 100) 100)) 100"
    and "accuracyScore (score c cfg) =
           fdiv (mathRound (fmul (fmul (fdiv
               (real_of_int (int (length (extractSchema c)) - int (length (mismatches c))))
               (real (length (extractSchema c)))) 100) 100)) 100"
    and "overallScore (score c cfg) =
           fdiv (mathRound (fmul (max 0 (fsub 100 (fmul (fdiv
               (fadd (fadd (fadd 0 (fmul (real (length (missing c))) (missingFieldPenalty cfg)))
                           (fmul (real (length (mismatches c))) (mismatchPenalty cfg)))
                     (fmul (real (length (extra c))) (extraFieldPenalty cfg)))
               (real (length (extractSchema c)))) 10))) 100)) 100"
    and "extraFieldScore (score c cfg) =
           fdiv (mathRound (fmul (fmul (fdiv (real (length (extra c)))
               (real (max (length (extractSchema c)) 1))) 100) 100)) 100"
  using assms by (simp_all add: score_def Let_def)

text \<open>
  C4 (as the code has it).  With a non-empty universe of \<open>total\<close> distinct paths and the
  three counts the lengths of the lists, each of the four scores is the stated expression
  evaluated in double arithmetic, every operation rounded to the nearest double, then
  multiplied by 100 in double arithmetic, rounded to the nearest integer with a tie going
  up, and divided by 100 in double arithmetic.  The score differs from the exact value
  \<open>x\<close> of the expression by at most half a hundredth and the accumulated rounding error of
  the doubles, \<open>(\<bar>x\<bar> + 1) / 2\<^sup>4\<^sup>9\<close>; for the overall score, with penalties that are not
  negative, the error of the doubles is at most \<open>(d + 100) / 2\<^sup>4\<^sup>9\<close>, where \<open>d\<close> is the
  exact deduction.
\<close>

theorem score_formulas:
  assumes "mm_path ` set (mismatches c) \<union> ms_path ` set (missing c) \<noteq> {}"
  shows "let total = real (card (mm_path ` set (mismatches c) \<union> ms_path ` set (missing c)));
             missingN = real (length (missing c));
             mismatchN = real (length (mismatches c));
             extraN = real (length (extra c));
             totalPenalty =
               fadd (fadd (fadd 0 (fmul missingN (missingFieldPenalty cfg)))
                          (fmul mismatchN (mismatchPenalty cfg)))
                    (fmul extraN (extraFieldPenalty cfg));
             completeness = (total - missingN - mismatchN) / total * 100;
             accuracy = (total - mismatchN) / total * 100;
             deduction =
               (missingN * missingFieldPenalty cfg + mismatchN * mismatchPenalty cfg
                  + extraN * extraFieldPenalty cfg) / total * 10;
             extraRate = extraN / total * 100
         in completenessScore (score c cfg) =
              fdiv (mathRound (fmul (fmul (fdiv (total - missingN - mismatchN) total) 100) 100)) 100
          \<and> accuracyScore (score c cfg) =
              fdiv (mathRound (fmul (fmul (fdiv (total - mismatchN) total) 100) 100)) 100
          \<and> overallScore (score c cfg) =
              fdiv (mathRound (fmul (max 0 (fsub 100 (fmul (fdiv totalPenalty total) 10))) 100)) 100
          \<and> extraFieldScore (score c cfg) =
              fdiv (mathRound (fmul (fmul (fdiv extraN total) 100) 100)) 100
          \<and> \<bar>completenessScore (score c cfg) - completeness\<bar>
                \<le> 1 / 200 + (\<bar>completeness\<bar> + 1) / 2 ^ 49
          \<and> \<bar>accuracyScore (score c cfg) - accuracy\<bar> \<le> 1 / 200 + (\<bar>accuracy\<bar> + 1) / 2 ^ 49
          \<and> \<bar>extraFieldScore (score c cfg) - extraRate\<bar> \<le> 1 / 200 + (\<bar>extraRate\<bar> + 1) / 2 ^ 49
          \<and> (0 \<le> missingFieldPenalty cfg \<and> 0 \<le> mismatchPenalty cfg \<and> 0 \<le> extraFieldPenalty cfg
               \<longrightarrow> \<bar>overallScore (score c cfg) - max 0 (100 - deduction)\<bar>
                      \<le> 1 / 200 + (deduction + 100) / 2 ^ 49)"
proof -
  let ?total = "card (mm_path ` set (mismatches c) \<union> ms_path ` set (missing c))"
  have len: "length (extractSchema c) = ?total"
    by (rule length_extractSchema)
  have pos: "0 < ?total"
    using assms by (simp add: card_gt_0_iff)
  have ne: "extractSchema c \<noteq> []"
    using pos len by auto
  note fields = score_nonempty [OF ne, of cfg, unfolded len]
  have mx: "max ?total 1 = ?total"
    using pos by simp
  have matched: "real_of_int (int ?total - int (length (missing c)) - int (length (mismatches c)))
      = real ?total - real (length (missing c)) - real (length (mismatches c))"
    by simp
  have accurate: "real_of_int (int ?total - int (length (mismatches c)))
      = real ?total - real (length (mismatches c))"
    by simp
  have one: "1 \<le> real ?total"
    using pos by simp
  have overall: "\<bar>fdiv (mathRound (fmul (max 0 (fsub 100 (fmul (fdiv
             (fadd (fadd (fadd 0 (fmul (real (length (missing c))) (missingFieldPenalty cfg)))
                  (fmul (real (length (mismatches c))) (mismatchPenalty cfg)))
               (fmul (real (length (extra c))) (extraFieldPenalty cfg)))
             (real ?total)) 10))) 100)) 100
           - max 0 (100 - (real (length (missing c)) * missingFieldPenalty cfg
                + real (length (mismatches c)) * mismatchPenalty cfg
                + real (length (extra c)) * extraFieldPenalty cfg) / real ?total * 10)\<bar>
         \<le> 1 / 200 + ((real (length (missing c)) * missingFieldPenalty cfg
                + real (length (mismatches c)) * mismatchPenalty cfg
                + real (length (extra c)) * extraFieldPenalty cfg) / real ?total * 10 + 100) / 2 ^ 49"
    if "0 \<le> missingFieldPenalty cfg \<and> 0 \<le> mismatchPenalty cfg \<and> 0 \<le> extraFieldPenalty cfg"
    using that one
      overall_close [of "real (length (missing c)) * missingFieldPenalty cfg"
        "real (length (mismatches c)) * mismatchPenalty cfg"
        "real (length (extra c)) * extraFieldPenalty cfg" "real ?total", folded fmul_def]
    by simp
  show ?thesis
    unfolding Let_def fields mx matched accurate
    using overall by (intro conjI refl percentScore_close impI)
qed

lemma compare_one_missing_two_extra:
  "compare B (JObj [(''a'', JNum 1)]) (JObj [(''b'', JNum 1), (''c'', JNum 2)]) defaultRules =
     Some \<lparr> passed = False, mismatches = [],
       missing = [\<lparr> ms_path = ''a'', ms_expectedValue = JNum 1 \<rparr>],
       extra = [\<lparr> ex_path = ''b'', ex_value = JNum 1 \<rparr>, \<lparr> ex_path = ''c'', ex_value = JNum 2 \<rparr>],
       warnings = [] \<rparr>"
  by (simp add: compare_def emptyComparison_def defaultRules_def fieldPathOf_def pushExtra_def
        pushMissing_def)

lemma compare_emptied_array:
  "compare B (JObj [(''arr'', JArr [JNum 1, JNum 2])]) (JObj [(''arr'', JArr [])]) defaultRules =
     Some \<lparr> passed = False, mismatches = [],
       missing = [\<lparr> ms_path = ''arr[]'', ms_expectedValue = JNum 1 \<rparr>,
                  \<lparr> ms_path = ''arr[]'', ms_expectedValue = JNum 2 \<rparr>],
       extra = [], warnings = [] \<rparr>"
  by (simp add: compare_def emptyComparison_def defaultRules_def fieldPathOf_def
        compareUnordered_def pushMissing_def)

theorem score_formulas_witness:
  "\<exists>c. compare exampleBuiltins (JObj [(''a'', JNum 1)])
          (JObj [(''b'', JNum 1), (''c'', JNum 2)]) defaultRules = Some c
     \<and> mm_path ` set (mismatches c) \<union> ms_path ` set (missing c) = {''a''}
     \<and> length (missing c) = 1 \<and> length (mismatches c) = 0 \<and> length (extra c) = 2
     \<and> 0 \<le> missingFieldPenalty defaultScoring \<and> 0 \<le> mismatchPenalty defaultScoring
     \<and> 0 \<le> extraFieldPenalty defaultScoring
     \<and> completenessScore (score c defaultScoring) = 0
     \<and> accuracyScore (score c defaultScoring) = 100
     \<and> overallScore (score c defaultScoring) = 0
     \<and> extraFieldScore (score c defaultScoring) = 200"
  using score_formulas [of "\<lparr> passed = False, mismatches = [],
       missing = [\<lparr> ms_path = ''a'', ms_expectedValue = JNum 1 \<rparr>],
       extra = [\<lparr> ex_path = ''b'', ex_value = JNum 1 \<rparr>, \<lparr> ex_path = ''c'', ex_value = JNum 2 \<rparr>],
       warnings = [] \<rparr>" defaultScoring]
  by (simp add: compare_one_missing_two_extra defaultScoring_def double_examples mathRound_examples)

lemma compareFields_all_missing:
  assumes "\<forall>kv \<in> set gt. getProp actual (fst kv) = None"
  shows "compareFields B gt actual [] {} result rules =
     Some (result\<lparr> missing := missing result @
       map (\<lambda>kv. \<lparr> ms_path = fst kv, ms_expectedValue = snd kv \<rparr>) gt \<rparr>)"
  using assms
  by (induction gt arbitrary: result) (auto simp: fieldPathOf_def pushMissing_def)

lemma detectExtraKeys_all_extra:
  assumes "\<forall>kv \<in> set actual. map_of gt (fst kv) = None"
  shows "detectExtraKeys gt actual [] {} result =
     result\<lparr> extra := extra result @
       map (\<lambda>kv. \<lparr> ex_path = fst kv, ex_value = snd kv \<rparr>) actual \<rparr>"
  using assms
  by (induction actual arbitrary: result) (auto simp: fieldPathOf_def pushExtra_def)

lemma manyFields_apart:
  "a \<noteq> b \<Longrightarrow> map_of (map (\<lambda>i. (replicate (Suc i) a, JNull)) [0..<n]) (replicate (Suc j) b) = None"
  by (simp add: map_of_eq_None_iff image_iff)

lemma manyMissing_compare:
  "compare B (manyFields (CHR ''a'') 160) (manyFields (CHR ''b'') 23) defaultRules = Some manyMissing"
proof -
  let ?gt = "map (\<lambda>i. (replicate (Suc i) (CHR ''a''), JNull)) [0..<160]"
  let ?actual = "map (\<lambda>i. (replicate (Suc i) (CHR ''b''), JNull)) [0..<23]"
  have absent: "\<forall>kv \<in> set ?gt. getProp (JObj ?actual) (fst kv) = None"
    using manyFields_apart [of "CHR ''b''" "CHR ''a''" 23] by auto
  have new: "\<forall>kv \<in> set ?actual. map_of ?gt (fst kv) = None"
    using manyFields_apart [of "CHR ''a''" "CHR ''b''" 160] by auto
  have fields: "compareFields B ?gt (JObj ?actual) [] {} emptyComparison defaultRules =
     Some (emptyComparison\<lparr> missing := missing emptyComparison @
       map (\<lambda>kv. \<lparr> ms_path = fst kv, ms_expectedValue = snd kv \<rparr>) ?gt \<rparr>)"
    using absent by (rule compareFields_all_missing)
  have keys: "detectExtraKeys ?gt ?actual [] {} r =
     r\<lparr> extra := extra r @ map (\<lambda>kv. \<lparr> ex_path = fst kv, ex_value = snd kv \<rparr>) ?actual \<rparr>" for r
    using new by (rule detectExtraKeys_all_extra)
  show ?thesis
    unfolding compare_def manyFields_def
    by (simp only: Let_def defaultRules_fields list.set compareObject.simps typeof.simps
          detectExtraFields.simps fields keys simp_thms if_False option.case)
       (simp add: manyMissing_def emptyComparison_def comp_def)
qed

lemma manyMissing_counts:
  "card (mm_path ` set (mismatches manyMissing) \<union> ms_path ` set (missing manyMissing)) = 160"
  "length (extra manyMissing) = 23"
proof -
  have "ms_path ` set (missing manyMissing) = (\<lambda>i. replicate (Suc i) (CHR ''a'')) ` {0..<160}"
    by (simp add: manyMissing_def image_image)
  moreover have "card ((\<lambda>i. replicate (Suc i) (CHR ''a'')) ` {0..<160::nat}) = card {0..<160::nat}"
    by (rule card_image) (simp add: inj_on_def)
  ultimately show "card (mm_path ` set (mismatches manyMissing)
      \<union> ms_path ` set (missing manyMissing)) = 160"
    by (simp add: manyMissing_def)
  show "length (extra manyMissing) = 23"
    by (simp add: manyMissing_def)
qed

lemma manyMissing_extraFieldScore:
  "extraFieldScore (score manyMissing defaultScoring) = fdiv 1437 100"
proof -
  have ne: "mm_path ` set (mismatches manyMissing) \<union> ms_path ` set (missing manyMissing) \<noteq> {}"
    using manyMissing_counts(1) by fastforce
  have len: "length (extractSchema manyMissing) = 160"
    using length_extractSchema [of manyMissing] manyMissing_counts(1) by simp
  then have "extractSchema manyMissing \<noteq> []"
    by auto
  note field = score_nonempty(4) [OF this, of defaultScoring, unfolded len manyMissing_counts(2)]
  have scaled: "fmul (fmul (fdiv 23 160) 100) 100 = 6322191859711999 / 2 ^ 42"
    by (simp add: double_eval)
  have rounded: "mathRound (fmul (fmul (fdiv 23 160) 100) 100) = 1437"
    unfolding scaled by (simp add: mathRound_def)
  show ?thesis
    unfolding field by (simp add: rounded)
qed

text \<open>
  C4 as the specification states it, with the exact value of each expression rounded to
  two decimals, ties up, fails.  With 160 distinct missing paths, 23 extra fields (the
  comparison of a ground truth of 160 fields with an output of 23 other fields) and
  the default penalties the rate of extra fields is \<open>23 / 160 \<times> 100 = 14.375\<close>, which rounds
  up to 14.38.  The doubles give \<open>14.374999999999998\<close> for the rate and
  \<open>1437.4999999999998\<close> for its hundredfold, which \<^verbatim>\<open>Math.round\<close> takes to 1437: the
  score is the double nearest to 14.37.
\<close>

theorem score_round_half_up_counterexample:
  "compare exampleBuiltins (manyFields (CHR ''a'') 160) (manyFields (CHR ''b'') 23) defaultRules
     = Some manyMissing
   \<and> card (mm_path ` set (mismatches manyMissing) \<union> ms_path ` set (missing manyMissing)) = 160
   \<and> length (extra manyMissing) = 23
   \<and> real (length (extra manyMissing))
        / real (card (mm_path ` set (mismatches manyMissing) \<union> ms_path ` set (missing manyMissing)))
        * 100 = 14375 / 1000
   \<and> extraFieldScore (score manyMissing defaultScoring) = fdiv 1437 100
   \<and> extraFieldScore (score manyMissing defaultScoring) < 14371 / 1000
   \<and> \<not> roundedHalfUp2
         (real (length (extra manyMissing))
            / real (card (mm_path ` set (mismatches manyMissing) \<union> ms_path ` set (missing manyMissing)))
            * 100)
         (extraFieldScore (score manyMissing defaultScoring))"
proof -
  have less: "fdiv 1437 100 < 14371 / 1000"
    by (simp add: double_eval)
  have below: "fdiv 1437 100 \<le> 1437 / 100"
    by (simp add: double_eval)
  show ?thesis
    unfolding manyMissing_counts manyMissing_extraFieldScore roundedHalfUp2_def manyMissing_compare
    using less below by simp
qed

text \<open>
  C5 fails on the code.  The universe holds only the paths that are missing or mismatched,
  so the number of matched fields is never positive, and it is negative as soon as two
  entries share a path; the rate of extra fields is not bounded by the universe either.
  With the default rules and penalties:
  the ground truth \<^verbatim>\<open>{"arr": [1, 2]}\<close> against \<^verbatim>\<open>{"arr": []}\<close> has completeness \<open>-100\<close>;
  the ground truth \<^verbatim>\<open>{"a": 1}\<close> against \<^verbatim>\<open>{"b": 1, "c": 2}\<close> has an extra field score of 200.
\<close>

theorem score_out_of_range:
  "(\<exists>c. compare exampleBuiltins (JObj [(''arr'', JArr [JNum 1, JNum 2])])
           (JObj [(''arr'', JArr [])]) defaultRules = Some c
        \<and> completenessScore (score c defaultScoring) = - 100)
   \<and> (\<exists>c. compare exampleBuiltins (JObj [(''a'', JNum 1)])
           (JObj [(''b'', JNum 1), (''c'', JNum 2)]) defaultRules = Some c
        \<and> extraFieldScore (score c defaultScoring) = 200)"
  by (simp add: compare_one_missing_two_extra compare_emptied_array score_def extractSchema_def
        setAdd_def defaultScoring_def double_examples mathRound_examples)

section \<open>Properties of the schema inferrer\<close>

lemma traverse_keeps_paths:
  "fst ` set fieldsMap \<subseteq> fst ` set (traverseObject obj prefix fieldsMap)"
  "fst ` set fieldsMap \<subseteq> fst ` set (traverseEntries entries prefix fieldsMap)"
proof (induct obj prefix fieldsMap and entries prefix fieldsMap
       rule: traverseObject_traverseEntries.induct)
  case (7 key "value" rest prefix fieldsMap)
  let ?fieldPath = "fieldPathOf prefix key"
  let ?step = "case value of
          JNull \<Rightarrow>
            AList.update ?fieldPath
              \<lparr> sf_path = ?fieldPath, sf_type = NullType, isArray = False, isRequired = True,
                sampleValues = [JNull] \<rparr> fieldsMap
        | JArr items \<Rightarrow>
            (case items of
               first # _ \<Rightarrow>
                 if typeof first = TObject \<and> first \<noteq> JNull
                 then traverseObject first (?fieldPath @ ''[]'') fieldsMap
                 else AList.update ?fieldPath
                        (arrayField ?fieldPath (firstOrEmptyString items) items) fieldsMap
             | [] \<Rightarrow>
                 AList.update ?fieldPath
                   (arrayField ?fieldPath (firstOrEmptyString items) items) fieldsMap)
        | JObj _ \<Rightarrow> traverseObject value ?fieldPath fieldsMap
        | _ \<Rightarrow>
            AList.update ?fieldPath
              \<lparr> sf_path = ?fieldPath, sf_type = getType value, isArray = False,
                isRequired = True, sampleValues = [value] \<rparr> fieldsMap"
  have "fst ` set fieldsMap \<subseteq> fst ` set ?step"
    using "7.hyps"(1,2) [OF refl]
    by (auto simp: dom_update split: json.splits list.splits)
  then show ?case
    using "7.hyps"(3) by (auto simp: Let_def)
qed (auto simp: dom_update)

lemma nested_empty_array_recorded:
  "(key, JArr []) \<in> set entries \<Longrightarrow>
     fieldPathOf prefix key \<in> fst ` set (traverseEntries entries prefix fieldsMap)"
proof (induction entries arbitrary: fieldsMap)
  case Nil
  then show ?case by simp
next
  case (Cons entry entries)
  show ?case
  proof (cases "entry = (key, JArr [])")
    case True
    have "fieldPathOf prefix key \<in> fst ` set (AList.update (fieldPathOf prefix key)
        (arrayField (fieldPathOf prefix key) (JStr []) []) fieldsMap)"
      by (simp add: dom_update)
    then show ?thesis
      using True traverse_keeps_paths(2) [of "AList.update (fieldPathOf prefix key)
        (arrayField (fieldPathOf prefix key) (JStr []) []) fieldsMap" entries prefix]
      by (auto simp: Let_def)
  next
    case False
    then have "(key, JArr []) \<in> set entries"
      using Cons.prems by simp
    then show ?thesis
      using Cons.IH by (cases entry) simp
  qed
qed

text \<open>
  C7 (as the code has it).  An empty array that is the root value, or that is reached as
  the first element of an array, contributes nothing.  An empty array that is the value of
  an object field is recorded: one entry at the path of the field, of type string, marked
  as an array, with no sample; the path is among the recorded paths when the object has
  been traversed.  A non-empty array whose first element is a primitive, at the root or as
  an element, gives one entry at the path of the array, typed from the first element;
  as the value of an object field it gives one entry at the path of the field, typed from
  the first element when that element is truthy.
\<close>

theorem traverse_arrays:
  "traverseObject (JArr []) prefix fieldsMap = fieldsMap
   \<and> traverseEntries ((key, JArr []) # rest) prefix fieldsMap =
       traverseEntries rest prefix
         (AList.update (fieldPathOf prefix key)
            \<lparr> sf_path = fieldPathOf prefix key, sf_type = StringType, isArray = True,
              isRequired = True, sampleValues = [] \<rparr> fieldsMap)
   \<and> ((key, JArr []) \<in> set entries \<longrightarrow>
         fieldPathOf prefix key \<in> fst ` set (traverseEntries entries prefix fieldsMap))
   \<and> (typeof x \<noteq> TObject \<or> x = JNull \<longrightarrow>
         traverseObject (JArr (x # xs)) prefix fieldsMap =
           AList.update prefix
             \<lparr> sf_path = prefix, sf_type = getType x, isArray = True, isRequired = True,
               sampleValues = take 3 (x # xs) \<rparr> fieldsMap)
   \<and> (typeof x \<noteq> TObject \<and> \<not> falsy x \<longrightarrow>
         traverseEntries ((key, JArr (x # xs)) # rest) prefix fieldsMap =
           traverseEntries rest prefix
             (AList.update (fieldPathOf prefix key)
                \<lparr> sf_path = fieldPathOf prefix key, sf_type = getType x, isArray = True,
                  isRequired = True, sampleValues = take 3 (x # xs) \<rparr> fieldsMap))"
  using nested_empty_array_recorded [of key entries prefix fieldsMap]
  by (auto simp: arrayField_def Let_def)

theorem traverse_arrays_witness:
  "(''a'', JArr []) \<in> set [(''n'', JNum 1), (''a'', JArr [])]
   \<and> fieldPathOf ''p'' ''a'' \<in> fst ` set (traverseEntries [(''n'', JNum 1), (''a'', JArr [])] ''p'' [])
   \<and> typeof (JNum 2) \<noteq> TObject \<and> \<not> falsy (JNum 2)
   \<and> traverseObject (JArr [JNum 2, JNum 1]) ''p'' [] =
       [(''p'', \<lparr> sf_path = ''p'', sf_type = NumberType, isArray = True, isRequired = True,
                  sampleValues = [JNum 2, JNum 1] \<rparr>)]
   \<and> traverseEntries [(''b'', JArr [JNum 2, JNum 1])] [] [] =
       [(''b'', \<lparr> sf_path = ''b'', sf_type = NumberType, isArray = True, isRequired = True,
                  sampleValues = [JNum 2, JNum 1] \<rparr>)]"
proof -
  have mem: "(''a'', JArr []) \<in> set [(''n'', JNum 1), (''a'', JArr [])]"
    and prim: "typeof (JNum 2) \<noteq> TObject" and truthy: "\<not> falsy (JNum 2)"
    by simp_all
  note inst1 = traverse_arrays [where key = "''a''" and entries = "[(''n'', JNum 1), (''a'', JArr [])]"
      and prefix = "''p''" and fieldsMap = "[]" and x = "JNum 2" and xs = "[JNum 1]"]
  note inst2 = traverse_arrays [where key = "''b''" and rest = "[]"
      and prefix = "[]" and fieldsMap = "[]" and x = "JNum 2" and xs = "[JNum 1]"]
  have recorded: "fieldPathOf ''p'' ''a'' \<in>
      fst ` set (traverseEntries [(''n'', JNum 1), (''a'', JArr [])] ''p'' [])"
    using inst1 mem by blast
  have root: "traverseObject (JArr [JNum 2, JNum 1]) ''p'' [] =
       [(''p'', \<lparr> sf_path = ''p'', sf_type = NumberType, isArray = True, isRequired = True,
                  sampleValues = [JNum 2, JNum 1] \<rparr>)]"
    using inst1 prim by simp
  have nested: "traverseEntries [(''b'', JArr [JNum 2, JNum 1])] [] [] =
       [(''b'', \<lparr> sf_path = ''b'', sf_type = NumberType, isArray = True, isRequired = True,
                  sampleValues = [JNum 2, JNum 1] \<rparr>)]"
    using inst2 prim truthy by (simp add: fieldPathOf_def)
  show ?thesis
    using mem recorded prim truthy root nested by blast
qed

text \<open>
  C7 as the specification states it fails for an empty array that is the value of an
  object field: the schema inferred from \<^verbatim>\<open>{"a": []}\<close> has a field at the path \<^verbatim>\<open>a\<close>.
\<close>

theorem infer_nested_empty_array_counterexample:
  "schemaFields (infer (JObj [(''a'', JArr [])])) =
     [(''a'', \<lparr> sf_path = ''a'', sf_type = StringType, isArray = True, isRequired = True,
                sampleValues = [] \<rparr>)]"
  by (simp add: infer_def fieldPathOf_def arrayField_def Let_def)

section \<open>Properties of the orchestrator\<close>

lemma runCase_throws:
  assumes "fetchData dataFetcher (tc_input testCase) = Inl e
     \<or> (\<exists>input. fetchData dataFetcher (tc_input testCase) = Inr input
           \<and> fetchData dataFetcher (tc_groundTruth testCase) = Inl e)
     \<or> (\<exists>input groundTruth. fetchData dataFetcher (tc_input testCase) = Inr input
           \<and> fetchData dataFetcher (tc_groundTruth testCase) = Inr groundTruth
           \<and> executeService dataFetcher (tc_endpoint testCase)
                (case tc_method testCase of None \<Rightarrow> ''POST'' | Some m \<Rightarrow> m) input = Inl e)"
  shows "runCase B dataFetcher testCase = failedCase testCase e"
  using assms by (auto simp: runCase_def)

text \<open>A comparison that throws ends the case in the same \<^verbatim>\<open>catch\<close> block.\<close>

lemma runCase_comparison_throws:
  assumes "fetchData dataFetcher (tc_input testCase) = Inr input"
    and "fetchData dataFetcher (tc_groundTruth testCase) = Inr groundTruth"
    and "executeService dataFetcher (tc_endpoint testCase)
           (case tc_method testCase of None \<Rightarrow> ''POST'' | Some m \<Rightarrow> m) input = Inr output"
    and "compare B groundTruth output (comparisonRules testCase) = None"
  shows "runCase B dataFetcher testCase =
     failedCase testCase (ErrorObject ''Cannot convert object to primitive value'')"
  using assms by (simp add: runCase_def)

lemma accounted_initial: "accounted B dataFetcher cases (initialPool cases)"
  by (simp add: accounted_def initialPool_def)

lemma accounted_processNext:
  assumes "accounted B dataFetcher cases st"
  shows "accounted B dataFetcher cases (processNext maxParallel st)"
proof (cases "queue st")
  case Nil
  then show ?thesis
    using assms by (auto simp: accounted_def processNext_def split: option.splits)
next
  case (Cons testCase rest)
  then show ?thesis
    using assms by (auto simp: accounted_def processNext_def)
qed

lemma accounted_startBatch:
  "accounted B dataFetcher cases st \<Longrightarrow>
     accounted B dataFetcher cases (startBatch i maxParallel st)"
proof (induction i maxParallel st rule: startBatch.induct)
  case (1 i maxParallel st)
  then show ?case
    by (subst startBatch.simps) (simp add: accounted_processNext)
qed

lemma accounted_timers:
  "accounted B dataFetcher cases (st\<lparr> timers := n \<rparr>) = accounted B dataFetcher cases st"
  by (simp add: accounted_def)

lemma image_mset_take_out:
  assumes "x \<in> set xs"
  shows "add_mset (f x) (image_mset f (mset xs - {#x#})) = image_mset f (mset xs)"
proof -
  have "x \<in># mset xs"
    using assms by simp
  then have "mset xs = add_mset x (mset xs - {#x#})"
    by simp
  then have "image_mset f (mset xs) = image_mset f (add_mset x (mset xs - {#x#}))"
    by simp
  then show ?thesis
    by simp
qed

lemma accounted_step:
  assumes "accounted B dataFetcher cases st" and "poolStep maxParallel B dataFetcher st st'"
  shows "accounted B dataFetcher cases st'"
  using assms(2)
proof cases
  case (returns testCase)
  have inFlight: "inFlight st \<noteq> []" and len: "0 < length (inFlight st)"
    using returns(2) by auto
  note split = image_mset_take_out [OF returns(2), of "runCase B dataFetcher", symmetric]
  show ?thesis
    using assms(1) inFlight len returns(2) unfolding returns(1) accounted_def
    by (auto simp: split length_remove1)
next
  case fires
  then show ?thesis
    using assms(1) by (simp add: accounted_processNext accounted_timers)
qed

lemma reachable_accounted:
  "reachable maxParallel B dataFetcher cases st \<Longrightarrow> accounted B dataFetcher cases st"
  by (induction rule: reachable.induct)
     (auto intro: accounted_startBatch accounted_initial accounted_step)

lemma inFlight_processNext:
  "inFlight st \<noteq> [] \<Longrightarrow> inFlight (processNext maxParallel st) \<noteq> []"
  by (simp add: processNext_def)

lemma inFlight_startBatch:
  "inFlight st \<noteq> [] \<Longrightarrow> inFlight (startBatch i maxParallel st) \<noteq> []"
proof (induction i maxParallel st rule: startBatch.induct)
  case (1 i maxParallel st)
  then show ?case
    by (subst startBatch.simps) (simp add: inFlight_processNext)
qed

lemma busy_start:
  assumes "cases \<noteq> []" and "0 < maxParallel"
  shows "busy (startBatch 0 maxParallel (initialPool cases))"
proof -
  have "inFlight (processNext maxParallel (initialPool cases)) \<noteq> []"
    using assms by (simp add: processNext_def initialPool_def)
  then have "inFlight (startBatch (0 + 1) maxParallel (processNext maxParallel (initialPool cases))) \<noteq> []"
    by (rule inFlight_startBatch)
  moreover have "startBatch 0 maxParallel (initialPool cases) =
      startBatch (0 + 1) maxParallel (processNext maxParallel (initialPool cases))"
    using assms by (subst startBatch.simps) (simp add: initialPool_def)
  ultimately show ?thesis
    by (simp add: busy_def)
qed

lemma busy_step:
  assumes "0 < maxParallel" and "accounted B dataFetcher cases st"
    and "poolStep maxParallel B dataFetcher st st'"
  shows "busy st'"
  using assms(3)
proof cases
  case (returns testCase)
  then show ?thesis
    by (simp add: busy_def)
next
  case fires
  show ?thesis
    using assms(1,2) unfolding fires(1) busy_def accounted_def processNext_def
    by (auto split: option.splits)
qed

lemma reachable_busy:
  assumes "cases \<noteq> []" and "0 < maxParallel"
  shows "reachable maxParallel B dataFetcher cases st \<Longrightarrow> busy st"
proof (induction rule: reachable.induct)
  case start
  show ?case
    using assms by (rule busy_start)
next
  case (step st st')
  show ?case
    using assms(2) reachable_accounted [OF step.hyps(1)] step.hyps(2) by (rule busy_step)
qed

lemma busy_enabled:
  assumes "busy st" and "resolved st = None"
  shows "\<exists>st'. poolStep maxParallel B dataFetcher st st'"
proof (cases "inFlight st")
  case Nil
  then have "0 < timers st"
    using assms by (simp add: busy_def)
  then show ?thesis
    by (blast intro: poolStep.fires)
next
  case (Cons testCase rest)
  then have "testCase \<in> set (inFlight st)"
    by simp
  then show ?thesis
    by (blast intro: poolStep.returns)
qed

lemma workLeft_step:
  assumes "poolStep maxParallel B dataFetcher st st'"
  shows "workLeft st' < workLeft st"
  using assms
proof cases
  case (returns testCase)
  then have "0 < length (inFlight st)"
    by auto
  then have "Suc (2 * (length (inFlight st) - Suc 0)) < 2 * length (inFlight st)"
    by linarith
  then show ?thesis
    using returns by (simp add: workLeft_def length_remove1)
next
  case fires
  show ?thesis
  proof (cases "queue st")
    case Nil
    then show ?thesis
      using fires by (simp add: workLeft_def processNext_def)
  next
    case (Cons testCase rest)
    then show ?thesis
      using fires by (simp add: workLeft_def processNext_def)
  qed
qed

text \<open>
  C8.  When one of the three external calls of a case throws, \<^verbatim>\<open>runCase\<close> returns a result
  with status failed, error code \<^verbatim>\<open>EXECUTION_ERROR\<close> and the four scores zero.  In every
  run of the pool, whatever the order in which the cases return, the list the promise is
  resolved with holds exactly the results of the cases of the suite, one for each, and the
  suite result carries that list.  A suite with at least one case is never stuck before it
  is resolved, and every event reduces the work left, so the suite is resolved.
\<close>

theorem case_failure_contained:
  "((fetchData dataFetcher (tc_input testCase) = Inl e
      \<or> (\<exists>input. fetchData dataFetcher (tc_input testCase) = Inr input
           \<and> fetchData dataFetcher (tc_groundTruth testCase) = Inl e)
      \<or> (\<exists>input groundTruth. fetchData dataFetcher (tc_input testCase) = Inr input
           \<and> fetchData dataFetcher (tc_groundTruth testCase) = Inr groundTruth
           \<and> executeService dataFetcher (tc_endpoint testCase)
                (case tc_method testCase of None \<Rightarrow> ''POST'' | Some m \<Rightarrow> m) input = Inl e))
     \<longrightarrow> status (runCase B dataFetcher testCase) = Failed
       \<and> map_option err_code (error (runCase B dataFetcher testCase)) = Some ''EXECUTION_ERROR''
       \<and> overallScore (scoring (runCase B dataFetcher testCase)) = 0
       \<and> completenessScore (scoring (runCase B dataFetcher testCase)) = 0
       \<and> accuracyScore (scoring (runCase B dataFetcher testCase)) = 0
       \<and> extraFieldScore (scoring (runCase B dataFetcher testCase)) = 0)
   \<and> (reachable maxParallel B dataFetcher cases st \<and> resolved st = Some caseResults
     \<longrightarrow> mset caseResults = mset (map (runCase B dataFetcher) cases)
       \<and> length caseResults = length cases
       \<and> suiteCases (suiteResult cases caseResults) = caseResults)
   \<and> (reachable maxParallel B dataFetcher cases st \<and> resolved st = None
        \<and> cases \<noteq> [] \<and> 0 < maxParallel
     \<longrightarrow> (\<exists>st'. poolStep maxParallel B dataFetcher st st'))
   \<and> (poolStep maxParallel B dataFetcher st st' \<longrightarrow> workLeft st' < workLeft st)"
proof (intro conjI impI)
  assume throws: "fetchData dataFetcher (tc_input testCase) = Inl e
      \<or> (\<exists>input. fetchData dataFetcher (tc_input testCase) = Inr input
           \<and> fetchData dataFetcher (tc_groundTruth testCase) = Inl e)
      \<or> (\<exists>input groundTruth. fetchData dataFetcher (tc_input testCase) = Inr input
           \<and> fetchData dataFetcher (tc_groundTruth testCase) = Inr groundTruth
           \<and> executeService dataFetcher (tc_endpoint testCase)
                (case tc_method testCase of None \<Rightarrow> ''POST'' | Some m \<Rightarrow> m) input = Inl e)"
  note failed = runCase_throws [OF throws, of B]
  show "status (runCase B dataFetcher testCase) = Failed"
    and "map_option err_code (error (runCase B dataFetcher testCase)) = Some ''EXECUTION_ERROR''"
    and "overallScore (scoring (runCase B dataFetcher testCase)) = 0"
    and "completenessScore (scoring (runCase B dataFetcher testCase)) = 0"
    and "accuracyScore (scoring (runCase B dataFetcher testCase)) = 0"
    and "extraFieldScore (scoring (runCase B dataFetcher testCase)) = 0"
    by (simp_all add: failed failedCase_def)
next
  assume run: "reachable maxParallel B dataFetcher cases st \<and> resolved st = Some caseResults"
  then have "accounted B dataFetcher cases st"
    using reachable_accounted by blast
  then show all: "mset caseResults = mset (map (runCase B dataFetcher) cases)"
    using run by (auto simp: accounted_def)
  then have "size (mset caseResults) = size (mset (map (runCase B dataFetcher) cases))"
    by simp
  then show "length caseResults = length cases"
    by simp
  show "suiteCases (suiteResult cases caseResults) = caseResults"
    by (simp add: suiteResult_def)
next
  assume "reachable maxParallel B dataFetcher cases st \<and> resolved st = None
        \<and> cases \<noteq> [] \<and> 0 < maxParallel"
  then show "\<exists>st'. poolStep maxParallel B dataFetcher st st'"
    using reachable_busy busy_enabled by blast
next
  assume "poolStep maxParallel B dataFetcher st st'"
  then show "workLeft st' < workLeft st"
    by (rule workLeft_step)
qed

lemma brokenCase_throws:
  "fetchData exampleFetcher (tc_input brokenCase) =
     Inl (ErrorObject ''Failed to read file: missing.json'')"
  by (simp add: exampleFetcher_def brokenCase_def exampleCase_def)

lemma soundCase_passes: "status (runCase exampleBuiltins exampleFetcher soundCase) = Passed"
proof -
  have "wellFormed (JObj [(''x'', JNum 1)])" and "convertible (JObj [(''x'', JNum 1)])"
    by simp_all
  then have "compare exampleBuiltins (JObj [(''x'', JNum 1)]) (JObj [(''x'', JNum 1)]) defaultRules
      = Some emptyComparison"
    by (rule compare_self)
  then show ?thesis
    by (simp add: runCase_def exampleFetcher_def soundCase_def exampleCase_def emptyComparison_def Let_def)
qed

lemma example_run:
  "reachable 1 exampleBuiltins exampleFetcher [brokenCase, soundCase]
     \<lparr> queue = [], activeCount = 0, inFlight = [], timers = 0,
       results = [runCase exampleBuiltins exampleFetcher brokenCase,
                  runCase exampleBuiltins exampleFetcher soundCase],
       resolved = Some [runCase exampleBuiltins exampleFetcher brokenCase,
                        runCase exampleBuiltins exampleFetcher soundCase] \<rparr>"
proof -
  let ?reach = "reachable 1 exampleBuiltins exampleFetcher [brokenCase, soundCase]"
  let ?step = "poolStep 1 exampleBuiltins exampleFetcher"
  let ?r1 = "runCase exampleBuiltins exampleFetcher brokenCase"
  let ?r2 = "runCase exampleBuiltins exampleFetcher soundCase"
  let ?s0 = "\<lparr> queue = [soundCase], activeCount = 1, inFlight = [brokenCase], timers = 0,
       results = [], resolved = None \<rparr>"
  let ?s1 = "\<lparr> queue = [soundCase], activeCount = 0, inFlight = [], timers = 1,
       results = [?r1], resolved = None \<rparr>"
  let ?s2 = "\<lparr> queue = [], activeCount = 1, inFlight = [soundCase], timers = 0,
       results = [?r1], resolved = None \<rparr>"
  let ?s3 = "\<lparr> queue = [], activeCount = 0, inFlight = [], timers = 1,
       results = [?r1, ?r2], resolved = None \<rparr>"
  let ?s4 = "\<lparr> queue = [], activeCount = 0, inFlight = [], timers = 0,
       results = [?r1, ?r2], resolved = Some [?r1, ?r2] \<rparr>"
  have "startBatch 0 1 (initialPool [brokenCase, soundCase]) = ?s0"
    by (simp add: startBatch.simps processNext_def initialPool_def)
  then have r0: "?reach ?s0"
    using reachable.start [of 1 exampleBuiltins exampleFetcher "[brokenCase, soundCase]"] by simp
  have "?step ?s0 ?s1"
    using poolStep.returns [of brokenCase ?s0 1 exampleBuiltins exampleFetcher] by simp
  then have r1: "?reach ?s1"
    using r0 by (blast intro: reachable.step)
  have "?step ?s1 ?s2"
    using poolStep.fires [of ?s1 1 exampleBuiltins exampleFetcher] by (simp add: processNext_def)
  then have r2: "?reach ?s2"
    using r1 by (blast intro: reachable.step)
  have "?step ?s2 ?s3"
    using poolStep.returns [of soundCase ?s2 1 exampleBuiltins exampleFetcher] by simp
  then have r3: "?reach ?s3"
    using r2 by (blast intro: reachable.step)
  have "?step ?s3 ?s4"
    using poolStep.fires [of ?s3 1 exampleBuiltins exampleFetcher] by (simp add: processNext_def)
  then show ?thesis
    using r3 by (blast intro: reachable.step)
qed

lemma example_first_event:
  "poolStep 1 exampleBuiltins exampleFetcher
     (startBatch 0 1 (initialPool [brokenCase, soundCase]))
     \<lparr> queue = [soundCase], activeCount = 0, inFlight = [], timers = 1,
       results = [runCase exampleBuiltins exampleFetcher brokenCase], resolved = None \<rparr>"
proof -
  have "startBatch 0 1 (initialPool [brokenCase, soundCase]) =
      \<lparr> queue = [soundCase], activeCount = 1, inFlight = [brokenCase], timers = 0,
        results = [], resolved = None \<rparr>"
    by (simp add: startBatch.simps processNext_def initialPool_def)
  then show ?thesis
    using poolStep.returns [of brokenCase "\<lparr> queue = [soundCase], activeCount = 1,
        inFlight = [brokenCase], timers = 0, results = [], resolved = None \<rparr>"
        1 exampleBuiltins exampleFetcher]
    by simp
qed

lemma effectiveMaxParallel_positive: "0 < effectiveMaxParallel configured"
  by (simp add: effectiveMaxParallel_def split: option.splits)

lemma example_start:
  "reachable 1 exampleBuiltins exampleFetcher [brokenCase, soundCase]
     (startBatch 0 1 (initialPool [brokenCase, soundCase]))
   \<and> resolved (startBatch 0 1 (initialPool [brokenCase, soundCase])) = None"
  using reachable.start [of 1 exampleBuiltins exampleFetcher "[brokenCase, soundCase]"]
  by (simp add: startBatch.simps processNext_def initialPool_def)

theorem case_failure_contained_witness:
  "fetchData exampleFetcher (tc_input brokenCase) =
     Inl (ErrorObject ''Failed to read file: missing.json'')
   \<and> status (runCase exampleBuiltins exampleFetcher brokenCase) = Failed
   \<and> map_option err_code (error (runCase exampleBuiltins exampleFetcher brokenCase)) =
       Some ''EXECUTION_ERROR''
   \<and> overallScore (scoring (runCase exampleBuiltins exampleFetcher brokenCase)) = 0
   \<and> status (runCase exampleBuiltins exampleFetcher soundCase) = Passed
   \<and> reachable 1 exampleBuiltins exampleFetcher [brokenCase, soundCase]
       \<lparr> queue = [], activeCount = 0, inFlight = [], timers = 0,
         results = [runCase exampleBuiltins exampleFetcher brokenCase,
                    runCase exampleBuiltins exampleFetcher soundCase],
         resolved = Some [runCase exampleBuiltins exampleFetcher brokenCase,
                          runCase exampleBuiltins exampleFetcher soundCase] \<rparr>
   \<and> length [runCase exampleBuiltins exampleFetcher brokenCase,
              runCase exampleBuiltins exampleFetcher soundCase] = length [brokenCase, soundCase]
   \<and> (\<exists>st'. poolStep 1 exampleBuiltins exampleFetcher
              (startBatch 0 1 (initialPool [brokenCase, soundCase])) st')
   \<and> workLeft \<lparr> queue = [soundCase], activeCount = 0, inFlight = [], timers = 1,
         results = [runCase exampleBuiltins exampleFetcher brokenCase], resolved = None \<rparr>
       < workLeft (startBatch 0 1 (initialPool [brokenCase, soundCase]))"
proof -
  note failure = case_failure_contained [where dataFetcher = exampleFetcher
      and testCase = brokenCase and B = exampleBuiltins
      and e = "ErrorObject ''Failed to read file: missing.json''"]
  have failed: "status (runCase exampleBuiltins exampleFetcher brokenCase) = Failed
     \<and> map_option err_code (error (runCase exampleBuiltins exampleFetcher brokenCase)) =
         Some ''EXECUTION_ERROR''
     \<and> overallScore (scoring (runCase exampleBuiltins exampleFetcher brokenCase)) = 0"
    using failure brokenCase_throws by blast
  note whole = case_failure_contained [where dataFetcher = exampleFetcher
      and B = exampleBuiltins and maxParallel = 1 and cases = "[brokenCase, soundCase]"
      and st = "\<lparr> queue = [], activeCount = 0, inFlight = [], timers = 0,
         results = [runCase exampleBuiltins exampleFetcher brokenCase,
                    runCase exampleBuiltins exampleFetcher soundCase],
         resolved = Some [runCase exampleBuiltins exampleFetcher brokenCase,
                          runCase exampleBuiltins exampleFetcher soundCase] \<rparr>"
      and caseResults = "[runCase exampleBuiltins exampleFetcher brokenCase,
                    runCase exampleBuiltins exampleFetcher soundCase]"]
  have counted: "length [runCase exampleBuiltins exampleFetcher brokenCase,
              runCase exampleBuiltins exampleFetcher soundCase] = length [brokenCase, soundCase]"
    using whole example_run by simp
  note moving = case_failure_contained [where dataFetcher = exampleFetcher
      and B = exampleBuiltins and maxParallel = 1 and cases = "[brokenCase, soundCase]"
      and st = "startBatch 0 1 (initialPool [brokenCase, soundCase])"]
  have enabled: "\<exists>st'. poolStep 1 exampleBuiltins exampleFetcher
              (startBatch 0 1 (initialPool [brokenCase, soundCase])) st'"
    using moving example_start by simp
  have less: "workLeft \<lparr> queue = [soundCase], activeCount = 0, inFlight = [], timers = 1,
         results = [runCase exampleBuiltins exampleFetcher brokenCase], resolved = None \<rparr>
       < workLeft (startBatch 0 1 (initialPool [brokenCase, soundCase]))"
    using moving [where st' = "\<lparr> queue = [soundCase], activeCount = 0, inFlight = [], timers = 1,
         results = [runCase exampleBuiltins exampleFetcher brokenCase], resolved = None \<rparr>"]
      example_first_event by blast
  show ?thesis
    using brokenCase_throws failed soundCase_passes example_run counted enabled less by blast
qed

end
